theory Spec2Isabelle
  imports Complex_Main "HOL-Library.Multiset"
begin

section \<open>Domain model (package domain)\<close>

text \<open>
  Go's \<^verbatim>\<open>float64\<close> amounts and balances are modelled as exact reals: rounding is outside
  this development. \<^verbatim>\<open>time.Time\<close> is an instant counted in nanoseconds. The string-backed
  types \<^verbatim>\<open>TransactionType\<close>, \<^verbatim>\<open>TransactionStatus\<close> and \<^verbatim>\<open>AccountStatus\<close> stay strings, so a
  value outside the declared constants is representable, as it is in Go. A map that may be
  \<^verbatim>\<open>nil\<close> is an option: reading a nil map finds nothing, writing to it panics.
\<close>

type_synonym Time = int

definition Minute :: int where
  "Minute = 60 * 1000000000"

definition Hour :: int where
  "Hour = 60 * Minute"

definition TypeDeposit :: string where "TypeDeposit = ''deposit''"
definition TypeWithdrawal :: string where "TypeWithdrawal = ''withdrawal''"
definition TypeTransfer :: string where "TypeTransfer = ''transfer''"

definition StatusPending :: string where "StatusPending = ''pending''"
definition StatusProcessing :: string where "StatusProcessing = ''processing''"
definition StatusCompleted :: string where "StatusCompleted = ''completed''"
definition StatusFailed :: string where "StatusFailed = ''failed''"
definition StatusSuspicious :: string where "StatusSuspicious = ''suspicious''"

definition AccountActive :: string where "AccountActive = ''active''"
definition AccountSuspended :: string where "AccountSuspended = ''suspended''"
definition AccountClosed :: string where "AccountClosed = ''closed''"

record Transaction =
  tx_ID :: string
  tx_Type :: string
  tx_Amount :: real
  tx_Currency :: string
  tx_FromAccountID :: string
  tx_ToAccountID :: string
  tx_Description :: string
  tx_Status :: string
  tx_CreatedAt :: Time
  tx_UpdatedAt :: Time
  tx_Metadata :: "(string \<rightharpoonup> string) option"
  tx_RiskScore :: int
  tx_FraudFlags :: "string list"

record Account =
  acc_ID :: string
  acc_UserID :: string
  acc_Balance :: real
  acc_Currency :: string
  acc_Status :: string
  acc_DailyLimit :: real
  acc_MonthlyLimit :: real
  acc_CreatedAt :: Time
  acc_LastActivityAt :: Time
  acc_RiskCategory :: string

record Rule =
  rule_ID :: string
  rule_Name :: string
  rule_Type :: string
  rule_Description :: string
  rule_Condition :: string
  rule_Action :: string
  rule_Priority :: int
  rule_IsActive :: bool
  rule_Version :: int

text \<open>Reading \<^verbatim>\<open>tx.Metadata[key]\<close> with the comma-ok form; a nil map has no key.\<close>

definition metadata_get :: "Transaction \<Rightarrow> string \<Rightarrow> string option" where
  "metadata_get tx k = (case tx_Metadata tx of None \<Rightarrow> None | Some m \<Rightarrow> m k)"

section \<open>Errors\<close>

text \<open>
  The sentinel errors of packages validator and repository, \<^verbatim>\<open>errors.New\<close> and
  \<^verbatim>\<open>fmt.Errorf\<close> without a wrapped error (\<open>New\<close>, carrying the message without its formatted
  numbers), \<^verbatim>\<open>fmt.Errorf("...: %w", err)\<close> (\<open>Wrapf\<close>) and
  \<^verbatim>\<open>fmt.Errorf("validation errors: %v", errs)\<close> (\<open>Errorv\<close>, which prints the list and wraps
  nothing).
\<close>

datatype error =
    ErrInvalidAmount
  | ErrInvalidCurrency
  | ErrInvalidAccount
  | ErrDuplicateTransaction
  | ErrNotFound
  | ErrDuplicate
  | ErrInsufficientFunds
  | New string
  | Wrapf string error
  | Errorv string "error list"

section \<open>Validator (package validator)\<close>

record TransactionValidator =
  seen :: "string set"

definition NewTransactionValidator :: TransactionValidator where
  "NewTransactionValidator = \<lparr>seen = {}\<rparr>"

text \<open>The compiled pattern \<^verbatim>\<open>^[A-Z]{3}$\<close>: exactly three bytes, each an ASCII capital.\<close>

definition currencyRegex_MatchString :: "string \<Rightarrow> bool" where
  "currencyRegex_MatchString s =
     (length s = 3 \<and> list_all (\<lambda>c. 65 \<le> (of_char c :: nat) \<and> (of_char c :: nat) \<le> 90) s)"

text \<open>The slice \<^verbatim>\<open>errs\<close> as it stands when the duplicate check is reached.\<close>

definition validation_errs :: "Time \<Rightarrow> Transaction \<Rightarrow> error list" where
  "validation_errs now tx =
     (if tx_Amount tx \<le> 0 then [ErrInvalidAmount] else []) @
     (if \<not> currencyRegex_MatchString (tx_Currency tx) then [ErrInvalidCurrency] else []) @
     (if tx_Type tx = TypeTransfer then
        (if tx_FromAccountID tx = [] \<or> tx_ToAccountID tx = [] then [ErrInvalidAccount] else []) @
        (if tx_FromAccountID tx = tx_ToAccountID tx
         then [New ''cannot transfer to same account''] else [])
      else []) @
     (if tx_CreatedAt tx > now + 5 * Minute
      then [New ''transaction date cannot be in the future''] else [])"

definition ValidateTransaction ::
  "Time \<Rightarrow> Transaction \<Rightarrow> TransactionValidator \<Rightarrow> error option \<times> TransactionValidator" where
  "ValidateTransaction now tx v =
     (let errs = validation_errs now tx in
      if tx_ID tx \<in> seen v then (Some ErrDuplicateTransaction, v)
      else
        (let v' = v\<lparr>seen := insert (tx_ID tx) (seen v)\<rparr> in
         if length errs > 0 then (Some (Errorv ''validation errors'' errs), v')
         else (None, v')))"

text \<open>
  A sequence of calls on one validator instance, each with the clock reading of its call;
  the results are listed in call order.
\<close>

fun validate_calls ::
  "TransactionValidator \<Rightarrow> (Time \<times> Transaction) list \<Rightarrow> error option list \<times> TransactionValidator" where
  "validate_calls v [] = ([], v)"
| "validate_calls v (c # cs) =
     (let (r, v') = ValidateTransaction (fst c) (snd c) v;
          (rs, v'') = validate_calls v' cs
      in (r # rs, v''))"

section \<open>Fraud detector (package processor)\<close>

text \<open>
  The fraud detector reads the wall clock in two places, each with its own call of
  \<^verbatim>\<open>time.Now().Hour()\<close>: in \<open>detectFrequentTransactions\<close>, the only detector that reads it,
  and afterwards in \<open>applyTimeBasedModifiers\<close>. \<open>Detect\<close> takes the hour of the first reading
  as its first argument, and \<open>AnalyzeTransaction\<close> takes both readings, which differ when
  the hour turns between them.
\<close>

record FraudPattern =
  Name :: string
  Description :: string
  Detect :: "nat \<Rightarrow> Transaction \<Rightarrow> bool \<times> string"
  Weight :: int

record FraudDetector =
  patterns :: "FraudPattern list"

definition detectLargeAmount :: "nat \<Rightarrow> Transaction \<Rightarrow> bool \<times> string" where
  "detectLargeAmount hour tx = (tx_Amount tx > 10000, ''large_amount'')"

definition detectFrequentTransactions :: "nat \<Rightarrow> Transaction \<Rightarrow> bool \<times> string" where
  "detectFrequentTransactions hour tx =
     (tx_Amount tx > 5000 \<and> hour < 6, ''frequent_transactions'')"

definition detectGeographicalAnomaly :: "nat \<Rightarrow> Transaction \<Rightarrow> bool \<times> string" where
  "detectGeographicalAnomaly hour tx =
     (case metadata_get tx ''location'' of
        Some location \<Rightarrow> (location = ''high_risk_country'', ''geographical_anomaly'')
      | None \<Rightarrow> (False, ''''))"

definition detectVelocityAnomaly :: "nat \<Rightarrow> Transaction \<Rightarrow> bool \<times> string" where
  "detectVelocityAnomaly hour tx =
     (case metadata_get tx ''velocity'' of
        Some velocity \<Rightarrow> (if velocity = ''high'' then (True, ''velocity_anomaly'') else (False, ''''))
      | None \<Rightarrow> (False, ''''))"

definition NewFraudDetector :: FraudDetector where
  "NewFraudDetector = \<lparr>patterns =
     [\<lparr>Name = ''large_amount'', Description = ''Transaction amount exceeds threshold'',
       Detect = detectLargeAmount, Weight = 30\<rparr>,
      \<lparr>Name = ''frequent_transactions'', Description = ''Too many transactions in short time'',
       Detect = detectFrequentTransactions, Weight = 25\<rparr>,
      \<lparr>Name = ''geographical_anomaly'', Description = ''Transaction from unusual location'',
       Detect = detectGeographicalAnomaly, Weight = 35\<rparr>,
      \<lparr>Name = ''velocity_check'', Description = ''Unusual transaction velocity'',
       Detect = detectVelocityAnomaly, Weight = 40\<rparr>]\<rparr>"

definition applyTimeBasedModifiers :: "nat \<Rightarrow> Transaction \<Rightarrow> int \<Rightarrow> int" where
  "applyTimeBasedModifiers hour tx baseScore =
     (if hour \<ge> 23 \<or> hour \<le> 5 then baseScore + 15 else baseScore)"

text \<open>One pass of the loop over the registry: the running score and the flags so far.\<close>

fun analyze_loop ::
  "FraudPattern list \<Rightarrow> nat \<Rightarrow> Transaction \<Rightarrow> int \<times> string list \<Rightarrow> int \<times> string list" where
  "analyze_loop [] hour tx acc = acc"
| "analyze_loop (p # ps) hour tx (riskScore, flags) =
     (case Detect p hour tx of
        (True, flag) \<Rightarrow> analyze_loop ps hour tx (riskScore + Weight p, flags @ [flag])
      | (False, flag) \<Rightarrow> analyze_loop ps hour tx (riskScore, flags))"

definition AnalyzeTransaction ::
  "FraudDetector \<Rightarrow> nat \<Rightarrow> nat \<Rightarrow> Transaction \<Rightarrow> int \<times> string list" where
  "AnalyzeTransaction fd hourDetect hourModify tx =
     (let (riskScore, flags) = analyze_loop (patterns fd) hourDetect tx (0, []);
          riskScore' = (if riskScore > 0 then applyTimeBasedModifiers hourModify tx riskScore
                        else riskScore)
      in (min riskScore' 100, flags))"

section \<open>What the standard library answers\<close>

text \<open>
  Values held in a Go \<^verbatim>\<open>interface{}\<close>. \<^verbatim>\<open>encoding/json\<close> decodes into \<open>GNil\<close>, \<open>GBool\<close>,
  \<open>GFloat\<close>, \<open>GString\<close>, \<open>GSlice\<close> (\<^verbatim>\<open>[]interface{}\<close>) and \<open>GMap\<close>
  (\<^verbatim>\<open>map[string]interface{}\<close>) only; \<open>GInt\<close> and \<open>GStrings\<close> (\<^verbatim>\<open>[]string\<close>) arise from values
  built in Go code.
\<close>

datatype gvalue =
    GNil
  | GBool bool
  | GFloat real
  | GInt int
  | GString string
  | GSlice "gvalue list"
  | GMap "(string \<times> gvalue) list"
  | GStrings "string list"

record Condition =
  Field :: string
  Operator :: string
  Value :: gvalue

record RuleAction =
  action_Type :: string
  Params :: "string \<rightharpoonup> gvalue"
  Message :: string

record RuleResult =
  RuleID :: string
  RuleName :: string
  Triggered :: bool
  Action :: RuleAction
  result_Description :: string

text \<open>
  The clock and the library functions the code calls, as one record: what \<^verbatim>\<open>time.Now()\<close>
  returns during the call, the calendar methods of \<^verbatim>\<open>time.Time\<close>, \<^verbatim>\<open>json.Unmarshal\<close> at its two
  target types, \<^verbatim>\<open>regexp.Compile\<close> (\<open>None\<close> where the pattern is rejected, otherwise the
  matcher \<^verbatim>\<open>MatchString\<close>) and \<^verbatim>\<open>fmt.Sprintf("%v", x)\<close>. The two readings of the fraud
  detector, on which its score depends, are \<open>clock_detect\<close> and \<open>clock_modifiers\<close>;
  \<open>clock_now\<close> stands for the readings of the validator, the ledger operations and the
  repositories, which end up in time stamps and in the windows of the volume sums.
\<close>

record World =
  clock_now :: Time
  clock_detect :: Time
  clock_modifiers :: Time
  time_Hour :: "Time \<Rightarrow> nat"
  time_Year :: "Time \<Rightarrow> int"
  time_Month :: "Time \<Rightarrow> int"
  time_startOfDay :: "Time \<Rightarrow> Time"
  time_DateUTC :: "int \<Rightarrow> int \<Rightarrow> Time"
  time_AddMonth :: "Time \<Rightarrow> Time"
  json_Condition :: "string \<Rightarrow> error + Condition"
  json_Action :: "string \<Rightarrow> error + RuleAction"
  regexp_Compile :: "string \<Rightarrow> (string \<Rightarrow> bool) option"
  fmt_Sprint :: "gvalue \<Rightarrow> string"

text \<open>A function returning \<^verbatim>\<open>(T, error)\<close> that may also panic.\<close>

datatype 'a res = Ok 'a | Err error | Panic

text \<open>
  A function returning \<^verbatim>\<open>error\<close>: \<open>Success\<close> is the nil error, \<open>Panicked\<close> a run-time
  panic, \<open>Blocked\<close> a send on a full channel that nothing drains.
\<close>

datatype outcome = Success | Failure error | Panicked | Blocked

section \<open>In-memory repositories (package memory)\<close>

text \<open>
  The repositories store pointers. They are modelled by value: a fetched account is a copy
  and \<open>Update\<close> writes it back under its own \<open>acc_ID\<close>. Both views agree as long as every
  account is stored under its own identifier and the accounts touched by one operation are
  distinct objects. Go iterates a map in no fixed order; the sums below do not depend on
  the order, and the transaction and rule stores are kept as lists of entries with
  distinct identifiers.
\<close>

record AccountRepository =
  accounts :: "string \<rightharpoonup> Account"

record TransactionRepository =
  transactions :: "Transaction list"

record RuleRepository =
  rules :: "Rule list"

definition AccountRepository_GetByID :: "AccountRepository \<Rightarrow> string \<Rightarrow> error + Account" where
  "AccountRepository_GetByID r ident =
     (case accounts r ident of
        None \<Rightarrow> Inl (Wrapf ''account'' ErrNotFound)
      | Some account \<Rightarrow> Inr account)"

definition AccountRepository_Update ::
  "Time \<Rightarrow> AccountRepository \<Rightarrow> Account \<Rightarrow> error option \<times> AccountRepository" where
  "AccountRepository_Update t r account =
     (case accounts r (acc_ID account) of
        None \<Rightarrow> (Some (Wrapf ''account'' ErrNotFound), r)
      | Some old \<Rightarrow>
          (None, r\<lparr>accounts := (accounts r)(acc_ID account \<mapsto> account\<lparr>acc_LastActivityAt := t\<rparr>)\<rparr>))"

definition TransactionRepository_Save ::
  "Time \<Rightarrow> TransactionRepository \<Rightarrow> Transaction \<Rightarrow>
     error option \<times> TransactionRepository \<times> Transaction" where
  "TransactionRepository_Save t r tx =
     (if tx_ID tx \<in> set (map tx_ID (transactions r))
      then (Some (Wrapf ''transaction'' ErrDuplicate), r, tx)
      else (let tx' = tx\<lparr>tx_UpdatedAt := t\<rparr>
            in (None, r\<lparr>transactions := transactions r @ [tx']\<rparr>, tx')))"

definition TransactionRepository_GetByPeriod ::
  "TransactionRepository \<Rightarrow> Time \<Rightarrow> Time \<Rightarrow> error + Transaction list" where
  "TransactionRepository_GetByPeriod r from to =
     Inr (sort_key tx_CreatedAt
            (filter (\<lambda>tx. \<not> tx_CreatedAt tx < from \<and> \<not> tx_CreatedAt tx > to) (transactions r)))"

definition TransactionRepository_GetDailyVolume ::
  "World \<Rightarrow> TransactionRepository \<Rightarrow> string \<Rightarrow> Time \<Rightarrow> error + real" where
  "TransactionRepository_GetDailyVolume w r accountID date =
     (let startOfDay = time_startOfDay w date;
          endOfDay = startOfDay + 24 * Hour
      in Inr (sum_list (map tx_Amount
            (filter (\<lambda>tx. (tx_FromAccountID tx = accountID \<or> tx_ToAccountID tx = accountID) \<and>
                          \<not> tx_CreatedAt tx < startOfDay \<and> tx_CreatedAt tx < endOfDay \<and>
                          tx_Status tx = StatusCompleted)
               (transactions r)))))"

definition TransactionRepository_GetMonthlyVolume ::
  "World \<Rightarrow> TransactionRepository \<Rightarrow> string \<Rightarrow> int \<Rightarrow> int \<Rightarrow> error + real" where
  "TransactionRepository_GetMonthlyVolume w r accountID year month =
     (let startOfMonth = time_DateUTC w year month;
          endOfMonth = time_AddMonth w startOfMonth
      in Inr (sum_list (map tx_Amount
            (filter (\<lambda>tx. (tx_FromAccountID tx = accountID \<or> tx_ToAccountID tx = accountID) \<and>
                          \<not> tx_CreatedAt tx < startOfMonth \<and> tx_CreatedAt tx < endOfMonth \<and>
                          tx_Status tx = StatusCompleted)
               (transactions r)))))"

definition RuleRepository_GetByID :: "RuleRepository \<Rightarrow> string \<Rightarrow> error + Rule" where
  "RuleRepository_GetByID r ident =
     (case find (\<lambda>rule. rule_ID rule = ident) (rules r) of
        None \<Rightarrow> Inl (Wrapf ''rule'' ErrNotFound)
      | Some rule \<Rightarrow> Inr rule)"

text \<open>Active rules, highest priority first.\<close>

definition RuleRepository_GetActiveRules :: "RuleRepository \<Rightarrow> error + Rule list" where
  "RuleRepository_GetActiveRules r =
     Inr (sort_key (\<lambda>rule. - rule_Priority rule) (filter rule_IsActive (rules r)))"

section \<open>Rule engine (package processor)\<close>

text \<open>
  \<open>cache\<close> is the map from cache key to rule list, kept as a list of entries. The engine's
  logger is never nil (\<^verbatim>\<open>NewRuleEngine\<close> substitutes \<^verbatim>\<open>slog.Default()\<close>), so its log calls
  have no effect on the results and are left out.
\<close>

record RuleEngine =
  cache :: "(string \<times> Rule list) list"

definition NewRuleEngine :: RuleEngine where
  "NewRuleEngine = \<lparr>cache = []\<rparr>"

definition parseCondition :: "World \<Rightarrow> string \<Rightarrow> Condition res" where
  "parseCondition w conditionStr =
     (case json_Condition w conditionStr of
        Inl err \<Rightarrow> Err (Wrapf ''invalid condition JSON'' err)
      | Inr condition \<Rightarrow> Ok condition)"

definition parseAction :: "World \<Rightarrow> string \<Rightarrow> RuleAction res" where
  "parseAction w actionStr =
     (case json_Action w actionStr of
        Inl err \<Rightarrow> Err (Wrapf ''invalid action JSON'' err)
      | Inr action \<Rightarrow> Ok action)"

definition checkAmountCondition :: "Condition \<Rightarrow> real \<Rightarrow> bool res" where
  "checkAmountCondition condition amount =
     (case Value condition of
        GFloat targetValue \<Rightarrow>
          (if Operator condition = ''>'' then Ok (amount > targetValue)
           else if Operator condition = ''>='' then Ok (amount \<ge> targetValue)
           else if Operator condition = ''<'' then Ok (amount < targetValue)
           else if Operator condition = ''<='' then Ok (amount \<le> targetValue)
           else if Operator condition = ''=='' then Ok (amount = targetValue)
           else if Operator condition = ''!='' then Ok (amount \<noteq> targetValue)
           else Err (New ''unknown operator''))
      | _ \<Rightarrow> Err (New ''invalid value type for amount''))"

definition checkNumericCondition :: "Condition \<Rightarrow> real \<Rightarrow> bool res" where
  "checkNumericCondition condition v =
     (case Value condition of
        GFloat targetValue \<Rightarrow>
          (if Operator condition = ''>'' then Ok (v > targetValue)
           else if Operator condition = ''>='' then Ok (v \<ge> targetValue)
           else if Operator condition = ''<'' then Ok (v < targetValue)
           else if Operator condition = ''<='' then Ok (v \<le> targetValue)
           else if Operator condition = ''=='' then Ok (v = targetValue)
           else if Operator condition = ''!='' then Ok (v \<noteq> targetValue)
           else Err (New ''unknown operator''))
      | _ \<Rightarrow> Err (New ''invalid value type for numeric field''))"

text \<open>
  \<^verbatim>\<open>regexp.MustCompile\<close> panics where \<^verbatim>\<open>regexp.Compile\<close> returns an error. The inner
  assertion of case \<^verbatim>\<open>"in"\<close> inspects the same \<^verbatim>\<open>condition.Value\<close> that the first assertion
  has already found to be a string.
\<close>

definition checkStringCondition :: "World \<Rightarrow> Condition \<Rightarrow> string \<Rightarrow> bool res" where
  "checkStringCondition w condition v =
     (case Value condition of
        GString targetValue \<Rightarrow>
          (if Operator condition = ''=='' then Ok (v = targetValue)
           else if Operator condition = ''!='' then Ok (v \<noteq> targetValue)
           else if Operator condition = ''contains'' then
             (case regexp_Compile w targetValue of
                None \<Rightarrow> Panic
              | Some matchString \<Rightarrow> Ok (matchString v))
           else if Operator condition = ''in'' then
             (case Value condition of
                GStrings arr \<Rightarrow> Ok (v \<in> set arr)
              | _ \<Rightarrow> Err (New ''invalid value for in operator''))
           else Err (New ''unknown operator''))
      | _ \<Rightarrow> Err (New ''invalid value type for string field''))"

text \<open>\<^verbatim>\<open>fmt.Sprintf("%v", x)\<close>: a string prints as itself, anything else as the library says.\<close>

definition sprint_v :: "World \<Rightarrow> gvalue \<Rightarrow> string" where
  "sprint_v w x = (case x of GString s \<Rightarrow> s | _ \<Rightarrow> fmt_Sprint w x)"

definition checkMetadataCondition ::
  "World \<Rightarrow> Condition \<Rightarrow> (string \<rightharpoonup> string) option \<Rightarrow> bool res" where
  "checkMetadataCondition w condition metadata =
     (case Value condition of
        GMap conditions \<Rightarrow>
          Ok (list_all (\<lambda>(key, expectedValue).
                 case (case metadata of None \<Rightarrow> None | Some m \<Rightarrow> m key) of
                   None \<Rightarrow> False
                 | Some actualValue \<Rightarrow> actualValue = sprint_v w expectedValue) conditions)
      | _ \<Rightarrow> Err (New ''invalid value type for metadata condition''))"

definition checkCondition :: "World \<Rightarrow> Condition \<Rightarrow> Transaction \<Rightarrow> bool res" where
  "checkCondition w condition tx =
     (if Field condition = ''amount'' then checkAmountCondition condition (tx_Amount tx)
      else if Field condition = ''currency'' then checkStringCondition w condition (tx_Currency tx)
      else if Field condition = ''type'' then checkStringCondition w condition (tx_Type tx)
      else if Field condition = ''risk_score''
        then checkNumericCondition condition (real_of_int (tx_RiskScore tx))
      else if Field condition = ''metadata'' then checkMetadataCondition w condition (tx_Metadata tx)
      else Err (New ''unknown field''))"

definition zero_RuleAction :: RuleAction where
  "zero_RuleAction = \<lparr>action_Type = [], Params = Map.empty, Message = []\<rparr>"

definition evaluateRule :: "World \<Rightarrow> Rule \<Rightarrow> Transaction \<Rightarrow> RuleResult res" where
  "evaluateRule w rule tx =
     (let result = \<lparr>RuleID = rule_ID rule, RuleName = rule_Name rule, Triggered = False,
                     Action = zero_RuleAction, result_Description = rule_Description rule\<rparr>
      in case parseCondition w (rule_Condition rule) of
           Panic \<Rightarrow> Panic
         | Err err \<Rightarrow> Err (Wrapf ''failed to parse condition'' err)
         | Ok condition \<Rightarrow>
             (case checkCondition w condition tx of
                Panic \<Rightarrow> Panic
              | Err err \<Rightarrow> Err (Wrapf ''failed to check condition'' err)
              | Ok triggered \<Rightarrow>
                  (if triggered then
                     (case parseAction w (rule_Action rule) of
                        Panic \<Rightarrow> Panic
                      | Err err \<Rightarrow> Err (Wrapf ''failed to parse action'' err)
                      | Ok action \<Rightarrow> Ok (result\<lparr>Triggered := True, Action := action\<rparr>))
                   else Ok (result\<lparr>Triggered := triggered\<rparr>))))"

definition getActiveRules ::
  "RuleRepository \<Rightarrow> RuleEngine \<Rightarrow> (error + Rule list) \<times> RuleEngine" where
  "getActiveRules repo e =
     (case map_of (cache e) ''active'' of
        Some cached \<Rightarrow> (Inr cached, e)
      | None \<Rightarrow>
          (case RuleRepository_GetActiveRules repo of
             Inl err \<Rightarrow> (Inl err, e)
           | Inr rs \<Rightarrow> (Inr rs, e\<lparr>cache := cache e @ [(''active'', rs)]\<rparr>)))"

definition getRulePriority :: "RuleRepository \<Rightarrow> RuleEngine \<Rightarrow> string \<Rightarrow> int" where
  "getRulePriority repo e ruleID =
     (case find (\<lambda>rule. rule_ID rule = ruleID) (concat (map snd (cache e))) of
        Some rule \<Rightarrow> rule_Priority rule
      | None \<Rightarrow>
          (case RuleRepository_GetByID repo ruleID of
             Inr rule \<Rightarrow> rule_Priority rule
           | Inl err \<Rightarrow> 0))"

text \<open>The loop of \<^verbatim>\<open>EvaluateRules\<close>: an error skips the rule, a panic leaves the loop.\<close>

fun evaluate_loop ::
  "World \<Rightarrow> Rule list \<Rightarrow> Transaction \<Rightarrow> RuleResult list \<Rightarrow> RuleResult list res" where
  "evaluate_loop w [] tx results = Ok results"
| "evaluate_loop w (rule # rs) tx results =
     (case evaluateRule w rule tx of
        Panic \<Rightarrow> Panic
      | Err err \<Rightarrow> evaluate_loop w rs tx results
      | Ok result \<Rightarrow>
          (if Triggered result then evaluate_loop w rs tx (results @ [result])
           else evaluate_loop w rs tx results))"

text \<open>
  \<^verbatim>\<open>slices.SortFunc\<close> orders by the difference of the priorities. It is modelled by a
  stable sort on unbounded integers; Go promises neither stability nor a difference that
  does not overflow, so only the multiset of the results is relied on below.
\<close>

definition EvaluateRules ::
  "World \<Rightarrow> RuleRepository \<Rightarrow> RuleEngine \<Rightarrow> Transaction \<Rightarrow> RuleResult list res \<times> RuleEngine" where
  "EvaluateRules w repo e tx =
     (case getActiveRules repo e of
        (Inl err, e') \<Rightarrow> (Err (Wrapf ''failed to get active rules'' err), e')
      | (Inr rs, e') \<Rightarrow>
          (case evaluate_loop w rs tx [] of
             Panic \<Rightarrow> (Panic, e')
           | Err err \<Rightarrow> (Err err, e')
           | Ok results \<Rightarrow>
               (Ok (sort_key (\<lambda>a. getRulePriority repo e' (RuleID a)) results), e')))"

definition InvalidateCache :: "RuleEngine \<Rightarrow> RuleEngine" where
  "InvalidateCache e = e\<lparr>cache := []\<rparr>"

subsection \<open>Executing an action\<close>










section \<open>Transaction processor (package processor)\<close>

text \<open>
  \<open>eventCh\<close> is the buffered channel (capacity 1000) as the queue of events not yet
  received; nothing in the repository receives from it. \<open>logger\<close> is the
  \<^verbatim>\<open>*slog.Logger\<close> field: a method call on a nil \<^verbatim>\<open>*slog.Logger\<close> dereferences it and panics.
  The mutex and the worker pool play no part in a single call and are left out.
\<close>

record TransactionEvent =
  ev_TransactionID :: string
  ev_Type :: string
  ev_Payload :: "(string \<times> gvalue) list"
  ev_Timestamp :: Time

datatype Logger = DefaultLogger

record TransactionProcessor =
  txRepo :: TransactionRepository
  accountRepo :: AccountRepository
  ruleRepo :: RuleRepository
  fraudDetector :: FraudDetector
  ruleEngine :: RuleEngine
  validator :: TransactionValidator
  eventCh :: "TransactionEvent list"
  metrics :: "string \<rightharpoonup> int"
  logger :: "Logger option"

definition eventCh_capacity :: nat where
  "eventCh_capacity = 1000"

text \<open>The constructor assigns every field but \<open>logger\<close>, which keeps its zero value.\<close>

definition NewTransactionProcessor ::
  "TransactionRepository \<Rightarrow> AccountRepository \<Rightarrow> RuleRepository \<Rightarrow> nat \<Rightarrow> TransactionProcessor" where
  "NewTransactionProcessor txr accr ruler maxWorkers =
     \<lparr>txRepo = txr, accountRepo = accr, ruleRepo = ruler,
      fraudDetector = NewFraudDetector, ruleEngine = NewRuleEngine,
      validator = NewTransactionValidator, eventCh = [], metrics = Map.empty,
      logger = None\<rparr>"

definition recordMetric :: "string \<Rightarrow> int \<Rightarrow> TransactionProcessor \<Rightarrow> TransactionProcessor" where
  "recordMetric k n p =
     p\<lparr>metrics := (metrics p)(k \<mapsto> (case metrics p k of None \<Rightarrow> 0 | Some c \<Rightarrow> c) + n)\<rparr>"

definition checkAccountLimits ::
  "World \<Rightarrow> TransactionProcessor \<Rightarrow> Account \<Rightarrow> Transaction \<Rightarrow> error option" where
  "checkAccountLimits w p account tx =
     (case TransactionRepository_GetDailyVolume w (txRepo p) (acc_ID account) (clock_now w) of
        Inl err \<Rightarrow> Some (Wrapf ''failed to get daily volume'' err)
      | Inr dailyVolume \<Rightarrow>
          (if acc_DailyLimit account > 0 \<and> dailyVolume + tx_Amount tx > acc_DailyLimit account
           then Some (New ''daily limit exceeded'')
           else
             (case TransactionRepository_GetMonthlyVolume w (txRepo p) (acc_ID account)
                     (time_Year w (clock_now w)) (time_Month w (clock_now w)) of
                Inl err \<Rightarrow> Some (Wrapf ''failed to get monthly volume'' err)
              | Inr monthlyVolume \<Rightarrow>
                  (if acc_MonthlyLimit account > 0 \<and>
                      monthlyVolume + tx_Amount tx > acc_MonthlyLimit account
                   then Some (New ''monthly limit exceeded'')
                   else None))))"

definition maxDepositAmount :: real where
  "maxDepositAmount = 50000"

definition checkDepositLimits ::
  "TransactionProcessor \<Rightarrow> Account \<Rightarrow> Transaction \<Rightarrow> error option" where
  "checkDepositLimits p account tx =
     (if tx_Amount tx > maxDepositAmount
      then Some (New ''deposit amount exceeds maximum limit'') else None)"

definition getDailyWithdrawal ::
  "World \<Rightarrow> TransactionProcessor \<Rightarrow> string \<Rightarrow> Time \<Rightarrow> error + real" where
  "getDailyWithdrawal w p accountID date =
     (let startOfDay = time_startOfDay w date;
          endOfDay = startOfDay + 24 * Hour
      in case TransactionRepository_GetByPeriod (txRepo p) startOfDay endOfDay of
           Inl err \<Rightarrow> Inl err
         | Inr txs \<Rightarrow>
             Inr (sum_list (map tx_Amount
                   (filter (\<lambda>tx. tx_FromAccountID tx = accountID \<and> tx_Type tx = TypeWithdrawal \<and>
                                 tx_Status tx = StatusCompleted) txs))))"

definition dailyWithdrawalLimit :: real where
  "dailyWithdrawalLimit = 5000"

definition checkWithdrawalLimits ::
  "World \<Rightarrow> TransactionProcessor \<Rightarrow> Account \<Rightarrow> Transaction \<Rightarrow> error option" where
  "checkWithdrawalLimits w p account tx =
     (case getDailyWithdrawal w p (acc_ID account) (clock_now w) of
        Inl err \<Rightarrow> Some (Wrapf ''failed to get daily withdrawal'' err)
      | Inr dailyWithdrawal \<Rightarrow>
          (if dailyWithdrawal + tx_Amount tx > dailyWithdrawalLimit
           then Some (New ''daily withdrawal limit exceeded'') else None))"

text \<open>
  Each ledger operation opens with a call on \<open>logger\<close>. In \<open>processTransfer\<close> both balances
  are changed before the first \<open>Update\<close>; when the second \<open>Update\<close> fails the amount is put
  back on the source and the source is written again, the result of that write ignored.
\<close>

definition processTransfer ::
  "World \<Rightarrow> TransactionProcessor \<Rightarrow> Transaction \<Rightarrow> outcome \<times> TransactionProcessor" where
  "processTransfer w p tx =
     (case logger p of
        None \<Rightarrow> (Panicked, p)
      | Some lg \<Rightarrow>
     (case AccountRepository_GetByID (accountRepo p) (tx_FromAccountID tx) of
        Inl err \<Rightarrow> (Failure (Wrapf ''failed to get from account'' err), p)
      | Inr fromAccount \<Rightarrow>
     (case AccountRepository_GetByID (accountRepo p) (tx_ToAccountID tx) of
        Inl err \<Rightarrow> (Failure (Wrapf ''failed to get to account'' err), p)
      | Inr toAccount \<Rightarrow>
     (if acc_Currency fromAccount \<noteq> acc_Currency toAccount
        then (Failure (New ''currency mismatch''), p)
      else if acc_Status fromAccount \<noteq> AccountActive
        then (Failure (New ''from account is not active''), p)
      else if acc_Status toAccount \<noteq> AccountActive
        then (Failure (New ''to account is not active''), p)
      else if acc_Balance fromAccount < tx_Amount tx
        then (Failure ErrInsufficientFunds, p)
      else
     (case checkAccountLimits w p fromAccount tx of
        Some err \<Rightarrow> (Failure err, p)
      | None \<Rightarrow>
          (let fromAccount1 = fromAccount\<lparr>acc_Balance := acc_Balance fromAccount - tx_Amount tx,
                                           acc_LastActivityAt := clock_now w\<rparr>;
               toAccount1 = toAccount\<lparr>acc_Balance := acc_Balance toAccount + tx_Amount tx,
                                       acc_LastActivityAt := clock_now w\<rparr>
           in case AccountRepository_Update (clock_now w) (accountRepo p) fromAccount1 of
                (Some err, r1) \<Rightarrow> (Failure (Wrapf ''failed to update from account'' err), p)
              | (None, r1) \<Rightarrow>
                  (case AccountRepository_Update (clock_now w) r1 toAccount1 of
                     (Some err, r2) \<Rightarrow>
                       (let fromAccount2 =
                              fromAccount1\<lparr>acc_Balance := acc_Balance fromAccount1 + tx_Amount tx\<rparr>;
                            r3 = snd (AccountRepository_Update (clock_now w) r1 fromAccount2)
                        in (Failure (Wrapf ''failed to update to account'' err),
                            p\<lparr>accountRepo := r3\<rparr>))
                   | (None, r2) \<Rightarrow> (Success, p\<lparr>accountRepo := r2\<rparr>))))))))"

definition processDeposit ::
  "World \<Rightarrow> TransactionProcessor \<Rightarrow> Transaction \<Rightarrow> outcome \<times> TransactionProcessor" where
  "processDeposit w p tx =
     (case logger p of
        None \<Rightarrow> (Panicked, p)
      | Some lg \<Rightarrow>
     (if tx_ToAccountID tx = [] then (Failure (New ''to account is required for deposit''), p)
      else
     (case AccountRepository_GetByID (accountRepo p) (tx_ToAccountID tx) of
        Inl err \<Rightarrow> (Failure (Wrapf ''failed to get to account'' err), p)
      | Inr toAccount \<Rightarrow>
     (if acc_Status toAccount \<noteq> AccountActive then (Failure (New ''account is not active''), p)
      else
     (case checkDepositLimits p toAccount tx of
        Some err \<Rightarrow> (Failure err, p)
      | None \<Rightarrow>
          (let toAccount1 = toAccount\<lparr>acc_Balance := acc_Balance toAccount + tx_Amount tx,
                                       acc_LastActivityAt := clock_now w\<rparr>
           in case AccountRepository_Update (clock_now w) (accountRepo p) toAccount1 of
                (Some err, r1) \<Rightarrow> (Failure (Wrapf ''failed to update account'' err), p)
              | (None, r1) \<Rightarrow> (Success, p\<lparr>accountRepo := r1\<rparr>)))))))"

definition processWithdrawal ::
  "World \<Rightarrow> TransactionProcessor \<Rightarrow> Transaction \<Rightarrow> outcome \<times> TransactionProcessor" where
  "processWithdrawal w p tx =
     (case logger p of
        None \<Rightarrow> (Panicked, p)
      | Some lg \<Rightarrow>
     (if tx_FromAccountID tx = [] then (Failure (New ''from account is required for withdrawal''), p)
      else
     (case AccountRepository_GetByID (accountRepo p) (tx_FromAccountID tx) of
        Inl err \<Rightarrow> (Failure (Wrapf ''failed to get from account'' err), p)
      | Inr fromAccount \<Rightarrow>
     (if acc_Status fromAccount \<noteq> AccountActive then (Failure (New ''account is not active''), p)
      else if acc_Balance fromAccount < tx_Amount tx then (Failure ErrInsufficientFunds, p)
      else
     (case checkWithdrawalLimits w p fromAccount tx of
        Some err \<Rightarrow> (Failure err, p)
      | None \<Rightarrow>
          (let fromAccount1 = fromAccount\<lparr>acc_Balance := acc_Balance fromAccount - tx_Amount tx,
                                           acc_LastActivityAt := clock_now w\<rparr>
           in case AccountRepository_Update (clock_now w) (accountRepo p) fromAccount1 of
                (Some err, r1) \<Rightarrow> (Failure (Wrapf ''failed to update account'' err), p)
              | (None, r1) \<Rightarrow> (Success, p\<lparr>accountRepo := r1\<rparr>)))))))"

definition executeTransaction ::
  "World \<Rightarrow> TransactionProcessor \<Rightarrow> Transaction \<Rightarrow> outcome \<times> TransactionProcessor" where
  "executeTransaction w p tx =
     (if tx_Type tx = TypeTransfer then processTransfer w p tx
      else if tx_Type tx = TypeDeposit then processDeposit w p tx
      else if tx_Type tx = TypeWithdrawal then processWithdrawal w p tx
      else (Failure (New ''unknown transaction type''), p))"

text \<open>The tail of \<open>ProcessTransaction\<close>: save the transaction, then count it.\<close>

definition save_and_count ::
  "World \<Rightarrow> TransactionProcessor \<Rightarrow> Transaction \<Rightarrow> outcome \<times> TransactionProcessor \<times> Transaction" where
  "save_and_count w p tx =
     (case TransactionRepository_Save (clock_now w) (txRepo p) tx of
        (Some err, r, tx') \<Rightarrow> (Failure err, p, tx')
      | (None, r, tx') \<Rightarrow> (Success, recordMetric ''transactions_processed'' 1 (p\<lparr>txRepo := r\<rparr>), tx'))"

text \<open>
  The transaction is passed by pointer: the third component of the result is the caller's
  transaction as the call leaves it, on every exit.
\<close>

definition ProcessTransaction ::
  "World \<Rightarrow> TransactionProcessor \<Rightarrow> Transaction \<Rightarrow> outcome \<times> TransactionProcessor \<times> Transaction" where
  "ProcessTransaction w p tx =
     (case ValidateTransaction (clock_now w) tx (validator p) of
        (Some err, v) \<Rightarrow> (Failure (Wrapf ''validation failed'' err), p\<lparr>validator := v\<rparr>, tx)
      | (None, v) \<Rightarrow>
     (let p1 = p\<lparr>validator := v\<rparr>;
          (riskScore, flags) = AnalyzeTransaction (fraudDetector p1)
                                 (time_Hour w (clock_detect w)) (time_Hour w (clock_modifiers w)) tx;
          tx1 = tx\<lparr>tx_RiskScore := riskScore, tx_FraudFlags := flags\<rparr>
      in case EvaluateRules w (ruleRepo p1) (ruleEngine p1) tx1 of
           (Panic, e) \<Rightarrow> (Panicked, p1\<lparr>ruleEngine := e\<rparr>, tx1)
         | (Err err, e) \<Rightarrow> (Failure (Wrapf ''rule evaluation failed'' err), p1\<lparr>ruleEngine := e\<rparr>, tx1)
         | (Ok results, e) \<Rightarrow>
     (let p2 = p1\<lparr>ruleEngine := e\<rparr>
      in if riskScore > 80 then
           (let tx2 = tx1\<lparr>tx_Status := StatusSuspicious\<rparr>
            in if length (eventCh p2) \<ge> eventCh_capacity then (Blocked, p2, tx2)
               else save_and_count w
                      (p2\<lparr>eventCh := eventCh p2 @
                             [\<lparr>ev_TransactionID = tx_ID tx2, ev_Type = ''transaction_suspicious'',
                               ev_Payload = [(''risk_score'', GInt riskScore), (''flags'', GStrings flags)],
                               ev_Timestamp = clock_now w\<rparr>]\<rparr>) tx2)
         else if riskScore > 50 then save_and_count w p2 (tx1\<lparr>tx_Status := StatusPending\<rparr>)
         else
           (case executeTransaction w p2 tx1 of
              (Success, p3) \<Rightarrow> save_and_count w p3 (tx1\<lparr>tx_Status := StatusCompleted\<rparr>)
            | (out, p3) \<Rightarrow> (out, p3, tx1)))))"

section \<open>A concrete world and the fixtures of the repository's tests\<close>

text \<open>
  The calendar in UTC (the proleptic Gregorian calendar on day numbers counted from
  1970-01-01), for evaluating the model at concrete instants.
\<close>

definition Day :: int where
  "Day = 24 * Hour"

definition days_from_civil :: "int \<Rightarrow> int \<Rightarrow> int \<Rightarrow> int" where
  "days_from_civil y m d =
     (let y1 = (if m \<le> 2 then y - 1 else y);
          era = y1 div 400;
          yoe = y1 - era * 400;
          doy = (153 * (if m > 2 then m - 3 else m + 9) + 2) div 5 + d - 1;
          doe = yoe * 365 + yoe div 4 - yoe div 100 + doy
      in era * 146097 + doe - 719468)"

definition civil_from_days :: "int \<Rightarrow> int \<times> int \<times> int" where
  "civil_from_days z0 =
     (let z = z0 + 719468;
          era = z div 146097;
          doe = z - era * 146097;
          yoe = (doe - doe div 1460 + doe div 36524 - doe div 146096) div 365;
          doy = doe - (365 * yoe + yoe div 4 - yoe div 100);
          mp = (5 * doy + 2) div 153;
          d = doy - (153 * mp + 2) div 5 + 1;
          m = (if mp < 10 then mp + 3 else mp - 9);
          y = yoe + era * 400
      in (if m \<le> 2 then y + 1 else y, m, d))"

definition utc_AddMonth :: "Time \<Rightarrow> Time" where
  "utc_AddMonth t =
     (case civil_from_days (t div Day) of
        (y, m, d) \<Rightarrow>
          days_from_civil (if m = 12 then y + 1 else y) (if m = 12 then 1 else m + 1) d * Day
            + t mod Day)"

text \<open>
  The decoders of the example world know the rule texts that the examples use and report
  every other text as malformed. Its pattern compiler knows the pattern \<^verbatim>\<open>(\<close>, which
  \<^verbatim>\<open>regexp\<close> rejects (missing closing parenthesis), and the literal pattern \<^verbatim>\<open>USD\<close>.
\<close>

definition cond_amount_gt_1000 :: string where
  \<open>cond_amount_gt_1000 = ''{"field":"amount","operator":">","value":1000}''\<close>

definition cond_currency_in :: string where
  \<open>cond_currency_in = ''{"field":"currency","operator":"in","value":["USD","EUR"]}''\<close>

definition cond_bad_regex :: string where
  \<open>cond_bad_regex = ''{"field":"currency","operator":"contains","value":"("}''\<close>

definition cond_unknown_field :: string where
  \<open>cond_unknown_field = ''{"field":"country","operator":"==","value":"US"}''\<close>

definition cond_not_json :: string where
  "cond_not_json = ''amount > 1000''"

definition action_flag :: string where
  \<open>action_flag = ''{"type":"flag_transaction","params":{"reason":"high_amount"},"message":"High transaction amount"}''\<close>

definition example_json_Condition :: "string \<Rightarrow> error + Condition" where
  "example_json_Condition s =
     (if s = cond_amount_gt_1000
        then Inr \<lparr>Field = ''amount'', Operator = ''>'', Value = GFloat 1000\<rparr>
      else if s = cond_currency_in
        then Inr \<lparr>Field = ''currency'', Operator = ''in'',
                  Value = GSlice [GString ''USD'', GString ''EUR'']\<rparr>
      else if s = cond_bad_regex
        then Inr \<lparr>Field = ''currency'', Operator = ''contains'', Value = GString ''(''\<rparr>
      else if s = cond_unknown_field
        then Inr \<lparr>Field = ''country'', Operator = ''=='', Value = GString ''US''\<rparr>
      else Inl (New ''invalid character''))"

definition example_json_Action :: "string \<Rightarrow> error + RuleAction" where
  "example_json_Action s =
     (if s = action_flag
        then Inr \<lparr>action_Type = ''flag_transaction'',
                  Params = [''reason'' \<mapsto> GString ''high_amount''],
                  Message = ''High transaction amount''\<rparr>
      else Inl (New ''invalid character''))"

fun occurs_in :: "string \<Rightarrow> string \<Rightarrow> bool" where
  "occurs_in pat [] = (pat = [])"
| "occurs_in pat (c # cs) = (take (length pat) (c # cs) = pat \<or> occurs_in pat cs)"

definition example_regexp_Compile :: "string \<Rightarrow> (string \<Rightarrow> bool) option" where
  "example_regexp_Compile pat =
     (if pat = ''USD'' then Some (occurs_in ''USD'') else None)"

definition example_fmt_Sprint :: "gvalue \<Rightarrow> string" where
  "example_fmt_Sprint x =
     (case x of GBool b \<Rightarrow> (if b then ''true'' else ''false'') | GString s \<Rightarrow> s | _ \<Rightarrow> ''<nil>'')"

definition utc_world :: "Time \<Rightarrow> World" where
  "utc_world t =
     \<lparr>clock_now = t, clock_detect = t, clock_modifiers = t,
      time_Hour = (\<lambda>t. nat ((t mod Day) div Hour)),
      time_Year = (\<lambda>t. fst (civil_from_days (t div Day))),
      time_Month = (\<lambda>t. fst (snd (civil_from_days (t div Day)))),
      time_startOfDay = (\<lambda>t. (t div Day) * Day),
      time_DateUTC = (\<lambda>y m. days_from_civil y m 1 * Day),
      time_AddMonth = utc_AddMonth,
      json_Condition = example_json_Condition,
      json_Action = example_json_Action,
      regexp_Compile = example_regexp_Compile,
      fmt_Sprint = example_fmt_Sprint\<rparr>"

text \<open>
  \<open>utc_world t\<close> is a world in which every reading of the clock returns \<open>t\<close>. Noon of
  2026-10-30 and three in the morning of the same day, UTC:
\<close>

definition noon :: Time where
  "noon = 20756 * Day + 12 * Hour"


text \<open>The zero \<^verbatim>\<open>time.Time\<close> (1 January of year 1) and the zero values of the structs.\<close>

definition zero_Time :: Time where
  "zero_Time = - 62135596800 * 1000000000"

definition zero_Transaction :: Transaction where
  "zero_Transaction =
     \<lparr>tx_ID = [], tx_Type = [], tx_Amount = 0, tx_Currency = [], tx_FromAccountID = [],
      tx_ToAccountID = [], tx_Description = [], tx_Status = [], tx_CreatedAt = zero_Time,
      tx_UpdatedAt = zero_Time, tx_Metadata = None, tx_RiskScore = 0, tx_FraudFlags = []\<rparr>"

definition zero_Account :: Account where
  "zero_Account =
     \<lparr>acc_ID = [], acc_UserID = [], acc_Balance = 0, acc_Currency = [], acc_Status = [],
      acc_DailyLimit = 0, acc_MonthlyLimit = 0, acc_CreatedAt = zero_Time,
      acc_LastActivityAt = zero_Time, acc_RiskCategory = []\<rparr>"

definition zero_Rule :: Rule where
  "zero_Rule =
     \<lparr>rule_ID = [], rule_Name = [], rule_Type = [], rule_Description = [], rule_Condition = [],
      rule_Action = [], rule_Priority = 0, rule_IsActive = False, rule_Version = 0\<rparr>"

text \<open>An account as \<^verbatim>\<open>AccountRepository.Save\<close> stores it at instant \<open>t\<close>.\<close>

definition saved_account :: "Time \<Rightarrow> string \<Rightarrow> string \<Rightarrow> real \<Rightarrow> Account" where
  "saved_account t ident user bal =
     zero_Account\<lparr>acc_ID := ident, acc_UserID := user, acc_Balance := bal,
                  acc_Currency := ''USD'', acc_Status := AccountActive,
                  acc_CreatedAt := t, acc_LastActivityAt := t\<rparr>"

text \<open>\<^verbatim>\<open>TestTransactionProcessor_ProcessTransaction_TransferSuccess\<close>.\<close>

definition transfer_test_accounts :: AccountRepository where
  "transfer_test_accounts =
     \<lparr>accounts = [''a1'' \<mapsto> saved_account noon ''a1'' ''u1'' 1000,
                  ''a2'' \<mapsto> saved_account noon ''a2'' ''u2'' 500]\<rparr>"

definition transfer_test_processor :: TransactionProcessor where
  "transfer_test_processor =
     NewTransactionProcessor \<lparr>transactions = []\<rparr> transfer_test_accounts \<lparr>rules = []\<rparr> 1"

definition transfer_test_tx :: Transaction where
  "transfer_test_tx =
     zero_Transaction\<lparr>tx_ID := ''tx1'', tx_Type := TypeTransfer, tx_FromAccountID := ''a1'',
                      tx_ToAccountID := ''a2'', tx_Amount := 200, tx_Currency := ''USD''\<rparr>"

text \<open>\<^verbatim>\<open>TestTransactionProcessor_ProcessTransaction_Deposit\<close>.\<close>

definition deposit_test_accounts :: AccountRepository where
  "deposit_test_accounts = \<lparr>accounts = [''a1'' \<mapsto> saved_account noon ''a1'' ''u1'' 100]\<rparr>"

definition deposit_test_processor :: TransactionProcessor where
  "deposit_test_processor =
     NewTransactionProcessor \<lparr>transactions = []\<rparr> deposit_test_accounts \<lparr>rules = []\<rparr> 1"

definition deposit_test_tx :: Transaction where
  "deposit_test_tx =
     zero_Transaction\<lparr>tx_ID := ''tx1'', tx_Type := TypeDeposit, tx_ToAccountID := ''a1'',
                      tx_Amount := 150, tx_Currency := ''USD''\<rparr>"

text \<open>\<^verbatim>\<open>TestTransactionProcessor_ProcessTransaction_WithdrawalInsufficientFunds\<close>.\<close>

definition withdrawal_test_tx :: Transaction where
  "withdrawal_test_tx =
     zero_Transaction\<lparr>tx_ID := ''tx1'', tx_Type := TypeWithdrawal, tx_FromAccountID := ''a1'',
                      tx_Amount := 200, tx_Currency := ''USD''\<rparr>"

text \<open>A processor to which a logger has been attached.\<close>

definition with_logger :: "TransactionProcessor \<Rightarrow> TransactionProcessor" where
  "with_logger p = p\<lparr>logger := Some DefaultLogger\<rparr>"


definition night_tx :: Transaction where
  "night_tx =
     zero_Transaction\<lparr>tx_ID := ''tx8'', tx_Type := TypeDeposit, tx_ToAccountID := ''a1'',
                      tx_Amount := 20000, tx_Currency := ''USD''\<rparr>"

text \<open>A transaction that fails validation, and its correction under the same identifier.\<close>

definition rejected_tx :: Transaction where
  "rejected_tx =
     zero_Transaction\<lparr>tx_ID := ''t1'', tx_Type := TypeDeposit, tx_ToAccountID := ''a1'',
                      tx_Amount := 0, tx_Currency := ''USD''\<rparr>"

definition corrected_tx :: Transaction where
  "corrected_tx = rejected_tx\<lparr>tx_Amount := 10\<rparr>"

text \<open>Rules: the one of \<^verbatim>\<open>TestRuleEngine_EvaluateRules_AmountCondition\<close> and malformed ones.\<close>

definition rule_high_amount :: Rule where
  "rule_high_amount =
     zero_Rule\<lparr>rule_ID := ''r1'', rule_Name := ''high_amount'', rule_IsActive := True,
               rule_Priority := 10, rule_Condition := cond_amount_gt_1000,
               rule_Action := action_flag, rule_Version := 1\<rparr>"

definition rule_not_json :: Rule where
  "rule_not_json =
     zero_Rule\<lparr>rule_ID := ''r2'', rule_Name := ''not_json'', rule_IsActive := True,
               rule_Priority := 20, rule_Condition := cond_not_json,
               rule_Action := action_flag, rule_Version := 1\<rparr>"

definition rule_unknown_field :: Rule where
  "rule_unknown_field =
     zero_Rule\<lparr>rule_ID := ''r3'', rule_Name := ''unknown_field'', rule_IsActive := True,
               rule_Priority := 5, rule_Condition := cond_unknown_field,
               rule_Action := action_flag, rule_Version := 1\<rparr>"

definition rule_bad_regex :: Rule where
  "rule_bad_regex =
     zero_Rule\<lparr>rule_ID := ''r4'', rule_Name := ''bad_regex'', rule_IsActive := True,
               rule_Priority := 1, rule_Condition := cond_bad_regex,
               rule_Action := action_flag, rule_Version := 1\<rparr>"

definition rule_currency_in :: Rule where
  "rule_currency_in =
     zero_Rule\<lparr>rule_ID := ''r5'', rule_Name := ''currency_in'', rule_IsActive := True,
               rule_Priority := 1, rule_Condition := cond_currency_in,
               rule_Action := action_flag, rule_Version := 1\<rparr>"

definition tx_1500 :: Transaction where
  "tx_1500 = zero_Transaction\<lparr>tx_ID := ''tx1'', tx_Amount := 1500, tx_Currency := ''USD''\<rparr>"














text \<open>An amount between the two thresholds, for the hour turning between the readings.\<close>

definition tx_6000 :: Transaction where
  "tx_6000 = zero_Transaction\<lparr>tx_ID := ''tx6'', tx_Amount := 6000, tx_Currency := ''USD''\<rparr>"

section \<open>Validator: duplicate detection and retry\<close>

lemmas domain_consts =
  TypeDeposit_def TypeWithdrawal_def TypeTransfer_def
  StatusPending_def StatusProcessing_def StatusCompleted_def StatusFailed_def
  StatusSuspicious_def AccountActive_def AccountSuspended_def AccountClosed_def

lemma ValidateTransaction_fresh:
  "tx_ID tx \<notin> seen v \<Longrightarrow>
   fst (ValidateTransaction t tx v) \<noteq> Some ErrDuplicateTransaction \<and>
   seen (snd (ValidateTransaction t tx v)) = insert (tx_ID tx) (seen v)"
  by (simp add: ValidateTransaction_def Let_def)

lemma ValidateTransaction_seen:
  "tx_ID tx \<in> seen v \<Longrightarrow> ValidateTransaction t tx v = (Some ErrDuplicateTransaction, v)"
  by (simp add: ValidateTransaction_def Let_def)

lemma ValidateTransaction_seen_after:
  "seen (snd (ValidateTransaction t tx v)) = insert (tx_ID tx) (seen v)"
  by (auto simp add: ValidateTransaction_def Let_def)

lemma ValidateTransaction_dup_iff:
  "fst (ValidateTransaction t tx v) = Some ErrDuplicateTransaction \<longleftrightarrow> tx_ID tx \<in> seen v"
  by (simp add: ValidateTransaction_def Let_def)

lemma ValidateTransaction_pass:
  "tx_ID tx \<notin> seen v \<Longrightarrow> validation_errs t tx = [] \<Longrightarrow> fst (ValidateTransaction t tx v) = None"
  by (simp add: ValidateTransaction_def Let_def)

lemma validate_calls_Cons_fst:
  "fst (validate_calls v (c # cs)) =
     fst (ValidateTransaction (fst c) (snd c) v) #
     fst (validate_calls (snd (ValidateTransaction (fst c) (snd c) v)) cs)"
  by (simp add: Let_def split: prod.splits)

lemma validate_calls_Cons_snd:
  "snd (validate_calls v (c # cs)) =
     snd (validate_calls (snd (ValidateTransaction (fst c) (snd c) v)) cs)"
  by (simp add: Let_def split: prod.splits)

lemma validate_calls_seen:
  "seen (snd (validate_calls v cs)) = seen v \<union> set (map (\<lambda>c. tx_ID (snd c)) cs)"
proof (induction cs arbitrary: v)
  case Nil
  then show ?case by simp
next
  case (Cons c cs)
  have "seen (snd (validate_calls v (c # cs))) =
        seen (snd (ValidateTransaction (fst c) (snd c) v)) \<union> set (map (\<lambda>c. tx_ID (snd c)) cs)"
    by (simp only: validate_calls_Cons_snd Cons.IH)
  then show ?case
    by (simp add: ValidateTransaction_seen_after)
qed

lemma validate_calls_nth:
  "i < length cs \<Longrightarrow>
   (fst (validate_calls v cs) ! i = Some ErrDuplicateTransaction) \<longleftrightarrow>
   (tx_ID (snd (cs ! i)) \<in> seen v \<or> (\<exists>j<i. tx_ID (snd (cs ! j)) = tx_ID (snd (cs ! i))))"
proof (induction cs arbitrary: v i)
  case Nil
  then show ?case by simp
next
  case (Cons c cs)
  let ?v1 = "snd (ValidateTransaction (fst c) (snd c) v)"
  have v1: "seen ?v1 = insert (tx_ID (snd c)) (seen v)"
    by (rule ValidateTransaction_seen_after)
  show ?case
  proof (cases i)
    case 0
    then show ?thesis
      by (simp add: validate_calls_Cons_fst ValidateTransaction_dup_iff del: validate_calls.simps)
  next
    case (Suc k)
    then have k: "k < length cs" using Cons.prems by simp
    have "(fst (validate_calls ?v1 cs) ! k = Some ErrDuplicateTransaction) \<longleftrightarrow>
          (tx_ID (snd (cs ! k)) \<in> seen ?v1 \<or> (\<exists>j<k. tx_ID (snd (cs ! j)) = tx_ID (snd (cs ! k))))"
      by (rule Cons.IH [OF k])
    moreover have "(\<exists>j<Suc k. tx_ID (snd ((c # cs) ! j)) = tx_ID (snd (cs ! k))) \<longleftrightarrow>
          (tx_ID (snd c) = tx_ID (snd (cs ! k)) \<or> (\<exists>j<k. tx_ID (snd (cs ! j)) = tx_ID (snd (cs ! k))))"
      by (auto simp: less_Suc_eq_0_disj)
    ultimately show ?thesis
      using Suc v1 by (auto simp: validate_calls_Cons_fst simp del: validate_calls.simps)
  qed
qed

text \<open>
  Claim C4. On a validator fresh from \<open>NewTransactionValidator\<close>, the call number \<open>i\<close> of
  any sequence of calls returns the duplicate error exactly when an earlier call of the
  sequence carried the same identifier: the first call with an identifier never returns
  it, every later one does. After the sequence the identifiers of all calls are recorded
  as seen, whatever the other checks said. In a single call, an identifier not yet seen is
  added to the set and the result is not the duplicate error; an identifier already seen
  yields the duplicate error, which is a value other than the aggregated validation
  error, and leaves the validator as it was.
\<close>

theorem C4_duplicate_on_second_call_only:
  "(\<forall>i<length cs.
      (fst (validate_calls NewTransactionValidator cs) ! i = Some ErrDuplicateTransaction) \<longleftrightarrow>
      (\<exists>j<i. tx_ID (snd (cs ! j)) = tx_ID (snd (cs ! i)))) \<and>
   seen (snd (validate_calls NewTransactionValidator cs)) = set (map (\<lambda>c. tx_ID (snd c)) cs) \<and>
   (tx_ID tx \<notin> seen v \<longrightarrow>
      fst (ValidateTransaction t tx v) \<noteq> Some ErrDuplicateTransaction \<and>
      seen (snd (ValidateTransaction t tx v)) = insert (tx_ID tx) (seen v)) \<and>
   (tx_ID tx \<in> seen v \<longrightarrow> ValidateTransaction t tx v = (Some ErrDuplicateTransaction, v))"
  using validate_calls_nth [of _ cs NewTransactionValidator]
    validate_calls_seen [of NewTransactionValidator cs]
    ValidateTransaction_fresh [of tx v t] ValidateTransaction_seen [of tx v t]
  by (simp add: NewTransactionValidator_def)

lemma rejected_tx_errs: "validation_errs noon rejected_tx = [ErrInvalidAmount]"
  by (simp add: validation_errs_def rejected_tx_def zero_Transaction_def
      currencyRegex_MatchString_def domain_consts zero_Time_def noon_def Day_def Hour_def Minute_def)

lemma corrected_tx_errs: "validation_errs noon corrected_tx = []"
  by (simp add: validation_errs_def corrected_tx_def rejected_tx_def zero_Transaction_def
      currencyRegex_MatchString_def domain_consts zero_Time_def noon_def Day_def Hour_def Minute_def)

lemma rejected_tx_first_call:
  "ValidateTransaction noon rejected_tx NewTransactionValidator =
     (Some (Errorv ''validation errors'' [ErrInvalidAmount]), \<lparr>seen = {''t1''}\<rparr>)"
  by (simp add: ValidateTransaction_def Let_def rejected_tx_errs NewTransactionValidator_def)
     (simp add: rejected_tx_def zero_Transaction_def)

theorem C4_witness:
  "1 < length [(noon, rejected_tx), (noon, corrected_tx)] \<and>
   fst (validate_calls NewTransactionValidator [(noon, rejected_tx), (noon, corrected_tx)]) ! 0
     \<noteq> Some ErrDuplicateTransaction \<and>
   fst (validate_calls NewTransactionValidator [(noon, rejected_tx), (noon, corrected_tx)]) ! 1
     = Some ErrDuplicateTransaction \<and>
   seen (snd (validate_calls NewTransactionValidator [(noon, rejected_tx), (noon, corrected_tx)]))
     = {''t1''} \<and>
   tx_ID rejected_tx \<notin> seen NewTransactionValidator \<and>
   seen (snd (ValidateTransaction noon rejected_tx NewTransactionValidator)) = {''t1''} \<and>
   tx_ID corrected_tx \<in> seen \<lparr>seen = {''t1''}\<rparr> \<and>
   ValidateTransaction noon corrected_tx \<lparr>seen = {''t1''}\<rparr>
     = (Some ErrDuplicateTransaction, \<lparr>seen = {''t1''}\<rparr>)"
proof -
  have ids: "tx_ID rejected_tx = ''t1''" "tx_ID corrected_tx = ''t1''"
    by (simp_all add: corrected_tx_def rejected_tx_def zero_Transaction_def)
  have fresh: "tx_ID rejected_tx \<notin> seen NewTransactionValidator"
    by (simp add: NewTransactionValidator_def)
  have old: "tx_ID corrected_tx \<in> seen \<lparr>seen = {''t1''}\<rparr>"
    by (simp add: ids)
  note a = C4_duplicate_on_second_call_only
             [of "[(noon, rejected_tx), (noon, corrected_tx)]" rejected_tx
                 NewTransactionValidator noon]
  note b = C4_duplicate_on_second_call_only
             [of "[(noon, rejected_tx), (noon, corrected_tx)]" corrected_tx
                 "\<lparr>seen = {''t1''}\<rparr>" noon]
  have calls: "\<forall>i<length [(noon, rejected_tx), (noon, corrected_tx)].
      (fst (validate_calls NewTransactionValidator [(noon, rejected_tx), (noon, corrected_tx)]) ! i
         = Some ErrDuplicateTransaction) \<longleftrightarrow>
      (\<exists>j<i. tx_ID (snd ([(noon, rejected_tx), (noon, corrected_tx)] ! j))
              = tx_ID (snd ([(noon, rejected_tx), (noon, corrected_tx)] ! i)))"
    using a by blast
  have c0: "fst (validate_calls NewTransactionValidator [(noon, rejected_tx), (noon, corrected_tx)]) ! 0
              \<noteq> Some ErrDuplicateTransaction"
    using calls [rule_format, of 0] by simp
  have c1: "fst (validate_calls NewTransactionValidator [(noon, rejected_tx), (noon, corrected_tx)]) ! 1
              = Some ErrDuplicateTransaction"
    using calls [rule_format, of 1] by (simp add: ids)
  have s: "seen (snd (validate_calls NewTransactionValidator [(noon, rejected_tx), (noon, corrected_tx)]))
             = {''t1''}"
    using a by (simp add: ids)
  have f: "seen (snd (ValidateTransaction noon rejected_tx NewTransactionValidator)) = {''t1''}"
    using a fresh by (simp add: ids NewTransactionValidator_def)
  have d: "ValidateTransaction noon corrected_tx \<lparr>seen = {''t1''}\<rparr>
             = (Some ErrDuplicateTransaction, \<lparr>seen = {''t1''}\<rparr>)"
    using b old by blast
  show ?thesis
    using c0 c1 s fresh f old d by simp
qed

text \<open>
  Claim C5, as stated, fails. The first call with \<open>rejected_tx\<close> (amount 0) fails with the
  aggregated validation error and not with the duplicate error, yet it changes the
  validator; \<open>corrected_tx\<close> differs from it in the amount only, has nothing left to
  object to, and is turned away as a duplicate.
\<close>

theorem C5_counterexample:
  "fst (ValidateTransaction noon rejected_tx NewTransactionValidator)
     = Some (Errorv ''validation errors'' [ErrInvalidAmount]) \<and>
   snd (ValidateTransaction noon rejected_tx NewTransactionValidator) \<noteq> NewTransactionValidator \<and>
   tx_ID corrected_tx = tx_ID rejected_tx \<and>
   validation_errs noon corrected_tx = [] \<and>
   fst (ValidateTransaction noon corrected_tx
          (snd (ValidateTransaction noon rejected_tx NewTransactionValidator)))
     = Some ErrDuplicateTransaction"
proof -
  have same: "tx_ID corrected_tx = tx_ID rejected_tx"
    by (simp add: corrected_tx_def)
  have "snd (ValidateTransaction noon rejected_tx NewTransactionValidator) \<noteq> NewTransactionValidator"
    by (simp only: rejected_tx_first_call snd_conv) (simp add: NewTransactionValidator_def)
  moreover have "fst (ValidateTransaction noon corrected_tx
          (snd (ValidateTransaction noon rejected_tx NewTransactionValidator)))
     = Some ErrDuplicateTransaction"
    by (simp only: ValidateTransaction_dup_iff ValidateTransaction_seen_after same) simp
  ultimately show ?thesis
    by (simp only: rejected_tx_first_call corrected_tx_errs same fst_conv) simp
qed

text \<open>
  Claim C5, amended. A call that fails with the aggregated validation error has one side
  effect: the identifier is recorded as seen. A later submission under the same
  identifier fails with the duplicate error, whatever has been corrected; a submission
  that has nothing left to object to passes when its identifier has not been seen.
\<close>

theorem C5_failed_validation_registers_identifier:
  assumes "fst (ValidateTransaction t tx v) = Some (Errorv msg errs)"
  shows "seen (snd (ValidateTransaction t tx v)) = insert (tx_ID tx) (seen v) \<and>
         (tx_ID tx' = tx_ID tx \<longrightarrow>
            fst (ValidateTransaction t' tx' (snd (ValidateTransaction t tx v)))
              = Some ErrDuplicateTransaction) \<and>
         (tx_ID tx' \<notin> seen (snd (ValidateTransaction t tx v)) \<and> validation_errs t' tx' = [] \<longrightarrow>
            fst (ValidateTransaction t' tx' (snd (ValidateTransaction t tx v))) = None)"
  by (simp add: ValidateTransaction_seen_after ValidateTransaction_dup_iff ValidateTransaction_pass)

theorem C5_witness:
  "fst (ValidateTransaction noon rejected_tx NewTransactionValidator)
     = Some (Errorv ''validation errors'' [ErrInvalidAmount]) \<and>
   seen (snd (ValidateTransaction noon rejected_tx NewTransactionValidator)) = {''t1''} \<and>
   tx_ID corrected_tx = tx_ID rejected_tx \<and>
   fst (ValidateTransaction noon corrected_tx
          (snd (ValidateTransaction noon rejected_tx NewTransactionValidator)))
     = Some ErrDuplicateTransaction \<and>
   tx_ID (corrected_tx\<lparr>tx_ID := ''t2''\<rparr>)
     \<notin> seen (snd (ValidateTransaction noon rejected_tx NewTransactionValidator)) \<and>
   validation_errs noon (corrected_tx\<lparr>tx_ID := ''t2''\<rparr>) = [] \<and>
   fst (ValidateTransaction noon (corrected_tx\<lparr>tx_ID := ''t2''\<rparr>)
          (snd (ValidateTransaction noon rejected_tx NewTransactionValidator))) = None"
proof -
  have first: "fst (ValidateTransaction noon rejected_tx NewTransactionValidator)
                 = Some (Errorv ''validation errors'' [ErrInvalidAmount])"
    by (simp add: rejected_tx_first_call)
  have same: "tx_ID corrected_tx = tx_ID rejected_tx"
    by (simp add: corrected_tx_def)
  have fresh: "tx_ID (corrected_tx\<lparr>tx_ID := ''t2''\<rparr>)
                 \<notin> seen (snd (ValidateTransaction noon rejected_tx NewTransactionValidator))"
    by (simp add: rejected_tx_first_call)
  have clean: "validation_errs noon (corrected_tx\<lparr>tx_ID := ''t2''\<rparr>) = []"
    by (simp add: validation_errs_def corrected_tx_def rejected_tx_def zero_Transaction_def
        currencyRegex_MatchString_def domain_consts zero_Time_def noon_def Day_def Hour_def
        Minute_def)
  note a = C5_failed_validation_registers_identifier
             [OF first, of corrected_tx noon]
  note b = C5_failed_validation_registers_identifier
             [OF first, of "corrected_tx\<lparr>tx_ID := ''t2''\<rparr>" noon]
  have "seen (snd (ValidateTransaction noon rejected_tx NewTransactionValidator)) = {''t1''}"
    using a by (simp add: NewTransactionValidator_def rejected_tx_def zero_Transaction_def)
  moreover have "fst (ValidateTransaction noon corrected_tx
          (snd (ValidateTransaction noon rejected_tx NewTransactionValidator)))
     = Some ErrDuplicateTransaction"
    using a same by blast
  moreover have "fst (ValidateTransaction noon (corrected_tx\<lparr>tx_ID := ''t2''\<rparr>)
          (snd (ValidateTransaction noon rejected_tx NewTransactionValidator))) = None"
    using b fresh clean by blast
  ultimately show ?thesis
    using first same fresh clean by simp
qed

section \<open>Fraud detector: the score\<close>

lemma analyze_loop_step:
  "analyze_loop (p # ps) h tx (s, fl) =
     (if fst (Detect p h tx) then analyze_loop ps h tx (s + Weight p, fl @ [snd (Detect p h tx)])
      else analyze_loop ps h tx (s, fl))"
  by (cases "Detect p h tx") (simp split: bool.splits)

lemma detect_fst_simps:
  "fst (detectLargeAmount h tx) = (tx_Amount tx > 10000)"
  "fst (detectFrequentTransactions h tx) = (tx_Amount tx > 5000 \<and> h < 6)"
  "fst (detectGeographicalAnomaly h tx) = (metadata_get tx ''location'' = Some ''high_risk_country'')"
  "fst (detectVelocityAnomaly h tx) = (metadata_get tx ''velocity'' = Some ''high'')"
  by (auto simp: detectLargeAmount_def detectFrequentTransactions_def
      detectGeographicalAnomaly_def detectVelocityAnomaly_def split: option.splits)

lemma detect_snd_simps:
  "snd (detectLargeAmount h tx) = ''large_amount''"
  "snd (detectFrequentTransactions h tx) = ''frequent_transactions''"
  "fst (detectGeographicalAnomaly h tx) \<Longrightarrow> snd (detectGeographicalAnomaly h tx) = ''geographical_anomaly''"
  "fst (detectVelocityAnomaly h tx) \<Longrightarrow> snd (detectVelocityAnomaly h tx) = ''velocity_anomaly''"
  by (auto simp: detectLargeAmount_def detectFrequentTransactions_def
      detectGeographicalAnomaly_def detectVelocityAnomaly_def split: option.splits if_splits)

lemma analyze_loop_registry:
  "analyze_loop (patterns NewFraudDetector) h tx (0, []) =
     ((if tx_Amount tx > 10000 then 30 else 0) +
      (if tx_Amount tx > 5000 \<and> h < 6 then 25 else 0) +
      (if metadata_get tx ''location'' = Some ''high_risk_country'' then 35 else 0) +
      (if metadata_get tx ''velocity'' = Some ''high'' then 40 else 0),
      (if tx_Amount tx > 10000 then [''large_amount''] else []) @
      (if tx_Amount tx > 5000 \<and> h < 6 then [''frequent_transactions''] else []) @
      (if metadata_get tx ''location'' = Some ''high_risk_country''
       then [''geographical_anomaly''] else []) @
      (if metadata_get tx ''velocity'' = Some ''high'' then [''velocity_anomaly''] else []))"
  using detect_snd_simps(3) [of h tx] detect_snd_simps(4) [of h tx]
  by (simp add: NewFraudDetector_def analyze_loop_step detect_fst_simps detect_snd_simps(1,2)
      del: analyze_loop.simps(2))

text \<open>
  Claim C6. The score returned by \<open>AnalyzeTransaction\<close> on the registry of
  \<open>NewFraudDetector\<close> is the sum of the weights of the detectors that fire (30 for an amount
  above 10,000; 25 for an amount above 5,000 in an hour before 6; 35 for the location
  \<^verbatim>\<open>high_risk_country\<close>; 40 for the velocity \<^verbatim>\<open>high\<close>), plus 15 when that sum is not zero and
  the hour is 23 or later or 5 or earlier, cut off at 100; it lies between 0 and 100. The
  hour of the detector is the one read when the detector runs (\<open>h1\<close>), the hour of the
  surcharge the one read when the surcharge is applied (\<open>h2\<close>). For an amount of 20,000
  the flags contain \<^verbatim>\<open>large_amount\<close> and the score is at least 30, at any hours.
\<close>

theorem C6_score_is_weight_sum_plus_night_surcharge:
  "(let base = (if tx_Amount tx > 10000 then 30 else 0) +
               (if tx_Amount tx > 5000 \<and> h1 < 6 then 25 else 0) +
               (if metadata_get tx ''location'' = Some ''high_risk_country'' then 35 else 0) +
               (if metadata_get tx ''velocity'' = Some ''high'' then 40 else 0);
        surcharge = (if base \<noteq> 0 \<and> (23 \<le> h2 \<or> h2 \<le> 5) then 15 else 0);
        (score, flags) = AnalyzeTransaction NewFraudDetector h1 h2 tx
    in score = min (base + surcharge) 100 \<and> 0 \<le> score \<and> score \<le> 100 \<and>
       (tx_Amount tx = 20000 \<longrightarrow> ''large_amount'' \<in> set flags \<and> 30 \<le> score))"
  unfolding AnalyzeTransaction_def analyze_loop_registry applyTimeBasedModifiers_def
  by (simp add: Let_def)

theorem C6_witness:
  "tx_Amount night_tx = 20000 \<and>
   AnalyzeTransaction NewFraudDetector 3 3 night_tx
     = (70, [''large_amount'', ''frequent_transactions'']) \<and>
   ''large_amount'' \<in> set (snd (AnalyzeTransaction NewFraudDetector 3 3 night_tx)) \<and>
   30 \<le> fst (AnalyzeTransaction NewFraudDetector 3 3 night_tx) \<and>
   fst (AnalyzeTransaction NewFraudDetector 5 6 tx_6000) = 25 \<and>
   fst (AnalyzeTransaction NewFraudDetector 5 5 tx_6000) = 40 \<and>
   fst (AnalyzeTransaction NewFraudDetector 6 6 tx_6000) = 0"
proof -
  have amount: "tx_Amount night_tx = 20000" "tx_Amount tx_6000 = 6000"
    by (simp_all add: night_tx_def tx_6000_def zero_Transaction_def)
  have meta: "metadata_get night_tx k = None" "metadata_get tx_6000 k = None" for k
    by (simp_all add: metadata_get_def night_tx_def tx_6000_def zero_Transaction_def)
  have run: "AnalyzeTransaction NewFraudDetector 3 3 night_tx
               = (70, [''large_amount'', ''frequent_transactions''])"
    unfolding AnalyzeTransaction_def analyze_loop_registry applyTimeBasedModifiers_def
    by (simp add: amount meta)
  have a: "fst (AnalyzeTransaction NewFraudDetector 5 6 tx_6000) = 25"
    using C6_score_is_weight_sum_plus_night_surcharge [of tx_6000 5 6]
    by (simp add: amount meta Let_def split: prod.splits)
  have b: "fst (AnalyzeTransaction NewFraudDetector 5 5 tx_6000) = 40"
    using C6_score_is_weight_sum_plus_night_surcharge [of tx_6000 5 5]
    by (simp add: amount meta Let_def split: prod.splits)
  have c: "fst (AnalyzeTransaction NewFraudDetector 6 6 tx_6000) = 0"
    using C6_score_is_weight_sum_plus_night_surcharge [of tx_6000 6 6]
    by (simp add: amount meta Let_def split: prod.splits)
  show ?thesis
    using C6_score_is_weight_sum_plus_night_surcharge [of night_tx 3 3] amount run a b c
    by simp
qed

section \<open>Executing an action on a transaction without metadata\<close>



section \<open>Ledger operations\<close>

lemma Update_present:
  "accounts r (acc_ID a) = Some old \<Longrightarrow>
   AccountRepository_Update t r a =
     (None, r\<lparr>accounts := (accounts r)(acc_ID a \<mapsto> a\<lparr>acc_LastActivityAt := t\<rparr>)\<rparr>)"
  by (simp add: AccountRepository_Update_def)

lemma GetByID_present:
  "accounts r k = Some a \<Longrightarrow> AccountRepository_GetByID r k = Inr a"
  by (simp add: AccountRepository_GetByID_def)

text \<open>
  With a logger attached, a transfer between two distinct, active accounts of one
  currency, within balance and limits, debits the source and credits the destination.
\<close>

lemma processTransfer_ok:
  assumes lg: "logger p = Some lg"
    and fx: "accounts (accountRepo p) (tx_FromAccountID tx) = Some ax"
    and idx: "acc_ID ax = tx_FromAccountID tx"
    and fy: "accounts (accountRepo p) (tx_ToAccountID tx) = Some ay"
    and idy: "acc_ID ay = tx_ToAccountID tx"
    and ne: "tx_FromAccountID tx \<noteq> tx_ToAccountID tx"
    and cur: "acc_Currency ax = acc_Currency ay"
    and actx: "acc_Status ax = AccountActive"
    and acty: "acc_Status ay = AccountActive"
    and bal: "tx_Amount tx \<le> acc_Balance ax"
    and lim: "checkAccountLimits w p ax tx = None"
  shows "processTransfer w p tx =
     (Success,
      p\<lparr>accountRepo := (accountRepo p)\<lparr>accounts := (accounts (accountRepo p))
          (tx_FromAccountID tx \<mapsto>
             ax\<lparr>acc_Balance := acc_Balance ax - tx_Amount tx, acc_LastActivityAt := clock_now w\<rparr>,
           tx_ToAccountID tx \<mapsto>
             ay\<lparr>acc_Balance := acc_Balance ay + tx_Amount tx, acc_LastActivityAt := clock_now w\<rparr>)\<rparr>\<rparr>)"
proof -
  let ?ax = "ax\<lparr>acc_Balance := acc_Balance ax - tx_Amount tx, acc_LastActivityAt := clock_now w\<rparr>"
  let ?ay = "ay\<lparr>acc_Balance := acc_Balance ay + tx_Amount tx, acc_LastActivityAt := clock_now w\<rparr>"
  let ?r1 = "(accountRepo p)\<lparr>accounts := (accounts (accountRepo p))(tx_FromAccountID tx \<mapsto> ?ax)\<rparr>"
  have u1: "AccountRepository_Update (clock_now w) (accountRepo p) ?ax = (None, ?r1)"
    using Update_present [of "accountRepo p" ?ax ax "clock_now w"] fx idx by simp
  have "accounts ?r1 (acc_ID ?ay) = Some ay"
    using fy idy ne by simp
  then have u2: "AccountRepository_Update (clock_now w) ?r1 ?ay =
      (None, ?r1\<lparr>accounts := (accounts ?r1)(tx_ToAccountID tx \<mapsto> ?ay)\<rparr>)"
    using Update_present [of ?r1 ?ay ay "clock_now w"] idy by simp
  have nb: "\<not> acc_Balance ax < tx_Amount tx"
    using bal by simp
  show ?thesis
    unfolding processTransfer_def
    by (simp add: lg GetByID_present [OF fx] GetByID_present [OF fy] cur actx acty nb lim
        Let_def u1 u2)
qed


lemma ledger_panics_without_logger:
  assumes "logger p = None"
  shows "processTransfer w p tx = (Panicked, p)"
    and "processDeposit w p tx = (Panicked, p)"
    and "processWithdrawal w p tx = (Panicked, p)"
  using assms by (simp_all add: processTransfer_def processDeposit_def processWithdrawal_def)

lemma executeTransaction_panics_without_logger:
  assumes "logger p = None"
    and "tx_Type tx = TypeTransfer \<or> tx_Type tx = TypeDeposit \<or> tx_Type tx = TypeWithdrawal"
  shows "executeTransaction w p tx = (Panicked, p)"
  using assms by (auto simp: executeTransaction_def ledger_panics_without_logger)

section \<open>The pipeline of ProcessTransaction\<close>

lemma save_and_count_keeps:
  "accountRepo (fst (snd (save_and_count w p tx))) = accountRepo p"
  "eventCh (fst (snd (save_and_count w p tx))) = eventCh p"
  "logger (fst (snd (save_and_count w p tx))) = logger p"
  "tx_Status (snd (snd (save_and_count w p tx))) = tx_Status tx"
  "tx_RiskScore (snd (snd (save_and_count w p tx))) = tx_RiskScore tx"
  "tx_FraudFlags (snd (snd (save_and_count w p tx))) = tx_FraudFlags tx"
  "fst (save_and_count w p tx) = Success \<or>
   fst (save_and_count w p tx) = Failure (Wrapf ''transaction'' ErrDuplicate)"
  by (simp_all add: save_and_count_def TransactionRepository_Save_def recordMetric_def Let_def)




lemma ProcessTransaction_low_risk:
  assumes "ValidateTransaction (clock_now w) tx (validator p) = (None, v)"
    and "AnalyzeTransaction (fraudDetector p) (time_Hour w (clock_detect w))
              (time_Hour w (clock_modifiers w)) tx = (score, flags)"
    and "EvaluateRules w (ruleRepo p) (ruleEngine p)
           (tx\<lparr>tx_RiskScore := score, tx_FraudFlags := flags\<rparr>) = (Ok results, e)"
    and "score \<le> 50"
  shows "ProcessTransaction w p tx =
     (case executeTransaction w (p\<lparr>validator := v, ruleEngine := e\<rparr>)
             (tx\<lparr>tx_RiskScore := score, tx_FraudFlags := flags\<rparr>) of
        (Success, p3) \<Rightarrow>
          save_and_count w p3
            (tx\<lparr>tx_RiskScore := score, tx_FraudFlags := flags, tx_Status := StatusCompleted\<rparr>)
      | (out, p3) \<Rightarrow> (out, p3, tx\<lparr>tx_RiskScore := score, tx_FraudFlags := flags\<rparr>))"
  using assms by (simp add: ProcessTransaction_def Let_def)

lemma validated_transfer_accounts:
  assumes "ValidateTransaction t tx v = (None, v')" and "tx_Type tx = TypeTransfer"
  shows "tx_FromAccountID tx \<noteq> tx_ToAccountID tx"
  using assms
  by (auto simp: ValidateTransaction_def validation_errs_def Let_def split: if_splits)

lemma checkAccountLimits_cong:
  "txRepo p' = txRepo p \<Longrightarrow> tx_Amount tx' = tx_Amount tx \<Longrightarrow>
   checkAccountLimits w p' a tx' = checkAccountLimits w p a tx"
  by (auto simp: checkAccountLimits_def split: sum.splits)

lemma save_and_count_success:
  "tx_ID tx \<notin> set (map tx_ID (transactions (txRepo p))) \<Longrightarrow>
   fst (save_and_count w p tx) = Success"
  by (simp add: save_and_count_def TransactionRepository_Save_def Let_def)

text \<open>
  What claim C1 describes holds of a processor that has a logger: after
  \<open>ProcessTransaction\<close> the source holds its balance less the amount, the destination its
  balance plus the amount, their sum is what it was, and the status is completed.
\<close>

lemma transfer_with_logger:
  assumes lg: "logger p = Some lg"
    and V: "ValidateTransaction (clock_now w) tx (validator p) = (None, v)"
    and A: "AnalyzeTransaction (fraudDetector p) (time_Hour w (clock_detect w))
              (time_Hour w (clock_modifiers w)) tx = (score, flags)"
    and E: "EvaluateRules w (ruleRepo p) (ruleEngine p)
              (tx\<lparr>tx_RiskScore := score, tx_FraudFlags := flags\<rparr>) = (Ok results, e)"
    and low: "score \<le> 50"
    and ty: "tx_Type tx = TypeTransfer"
    and fx: "accounts (accountRepo p) (tx_FromAccountID tx) = Some ax"
    and idx: "acc_ID ax = tx_FromAccountID tx"
    and fy: "accounts (accountRepo p) (tx_ToAccountID tx) = Some ay"
    and idy: "acc_ID ay = tx_ToAccountID tx"
    and cur: "acc_Currency ax = acc_Currency ay"
    and actx: "acc_Status ax = AccountActive"
    and acty: "acc_Status ay = AccountActive"
    and bal: "tx_Amount tx \<le> acc_Balance ax"
    and lim: "checkAccountLimits w p ax tx = None"
  shows "\<exists>out p' tx' ax' ay'.
           ProcessTransaction w p tx = (out, p', tx') \<and>
           accounts (accountRepo p') (tx_FromAccountID tx) = Some ax' \<and>
           accounts (accountRepo p') (tx_ToAccountID tx) = Some ay' \<and>
           acc_Balance ax' = acc_Balance ax - tx_Amount tx \<and>
           acc_Balance ay' = acc_Balance ay + tx_Amount tx \<and>
           acc_Balance ax' + acc_Balance ay' = acc_Balance ax + acc_Balance ay \<and>
           tx_Status tx' = StatusCompleted \<and>
           (tx_ID tx \<notin> set (map tx_ID (transactions (txRepo p))) \<longrightarrow> out = Success)"
proof -
  let ?p2 = "p\<lparr>validator := v, ruleEngine := e\<rparr>"
  let ?tx1 = "tx\<lparr>tx_RiskScore := score, tx_FraudFlags := flags\<rparr>"
  let ?ax = "ax\<lparr>acc_Balance := acc_Balance ax - tx_Amount tx, acc_LastActivityAt := clock_now w\<rparr>"
  let ?ay = "ay\<lparr>acc_Balance := acc_Balance ay + tx_Amount tx, acc_LastActivityAt := clock_now w\<rparr>"
  let ?p3 = "?p2\<lparr>accountRepo := (accountRepo ?p2)\<lparr>accounts := (accounts (accountRepo ?p2))
               (tx_FromAccountID ?tx1 \<mapsto> ?ax, tx_ToAccountID ?tx1 \<mapsto> ?ay)\<rparr>\<rparr>"
  let ?tx2 = "tx\<lparr>tx_RiskScore := score, tx_FraudFlags := flags, tx_Status := StatusCompleted\<rparr>"
  have ne: "tx_FromAccountID tx \<noteq> tx_ToAccountID tx"
    by (rule validated_transfer_accounts [OF V ty])
  have lim2: "checkAccountLimits w ?p2 ax ?tx1 = None"
    using lim by (simp add: checkAccountLimits_cong [of ?p2 p ?tx1 tx])
  have "processTransfer w ?p2 ?tx1 = (Success, ?p3)"
    using processTransfer_ok [of ?p2 lg ?tx1 ax ay w] lg fx idx fy idy ne cur actx acty bal lim2
    by simp
  then have ex: "executeTransaction w ?p2 ?tx1 = (Success, ?p3)"
    by (simp add: executeTransaction_def ty)
  have run: "ProcessTransaction w p tx = save_and_count w ?p3 ?tx2"
    using ProcessTransaction_low_risk [OF V A E low] ex by simp
  obtain out p' tx' where s: "save_and_count w ?p3 ?tx2 = (out, p', tx')"
    by (cases "save_and_count w ?p3 ?tx2")
  have repo: "accountRepo p' = accountRepo ?p3"
    using save_and_count_keeps(1) [of w ?p3 ?tx2] s by simp
  have st: "tx_Status tx' = StatusCompleted"
    using save_and_count_keeps(4) [of w ?p3 ?tx2] s by simp
  have ok: "tx_ID tx \<notin> set (map tx_ID (transactions (txRepo p))) \<longrightarrow> out = Success"
    using save_and_count_success [of ?tx2 ?p3 w] s by simp
  have "accounts (accountRepo p') (tx_FromAccountID tx) = Some ?ax"
    using repo ne by simp
  moreover have "accounts (accountRepo p') (tx_ToAccountID tx) = Some ?ay"
    using repo by simp
  ultimately show ?thesis
    using run s st ok by simp
qed

text \<open>
  A processor without a logger panics at the first statement of the ledger operation:
  nothing is written to the accounts, the status keeps its value.
\<close>

lemma ProcessTransaction_panics_without_logger:
  assumes nolog: "logger p = None"
    and V: "ValidateTransaction (clock_now w) tx (validator p) = (None, v)"
    and A: "AnalyzeTransaction (fraudDetector p) (time_Hour w (clock_detect w))
              (time_Hour w (clock_modifiers w)) tx = (score, flags)"
    and E: "EvaluateRules w (ruleRepo p) (ruleEngine p)
              (tx\<lparr>tx_RiskScore := score, tx_FraudFlags := flags\<rparr>) = (Ok results, e)"
    and low: "score \<le> 50"
    and ty: "tx_Type tx = TypeTransfer \<or> tx_Type tx = TypeDeposit \<or> tx_Type tx = TypeWithdrawal"
  shows "ProcessTransaction w p tx =
     (Panicked, p\<lparr>validator := v, ruleEngine := e\<rparr>,
      tx\<lparr>tx_RiskScore := score, tx_FraudFlags := flags\<rparr>)"
proof -
  have "executeTransaction w (p\<lparr>validator := v, ruleEngine := e\<rparr>)
          (tx\<lparr>tx_RiskScore := score, tx_FraudFlags := flags\<rparr>)
        = (Panicked, p\<lparr>validator := v, ruleEngine := e\<rparr>)"
    using executeTransaction_panics_without_logger
            [of "p\<lparr>validator := v, ruleEngine := e\<rparr>"
                "tx\<lparr>tx_RiskScore := score, tx_FraudFlags := flags\<rparr>" w] nolog ty
    by simp
  then show ?thesis
    using ProcessTransaction_low_risk [OF V A E low] by simp
qed

subsection \<open>The repository's own processor tests\<close>

lemma hour_noon: "time_Hour (utc_world t) noon = 12"
  by (simp add: utc_world_def noon_def Day_def Hour_def Minute_def)


lemma no_rules_evaluate:
  "EvaluateRules w \<lparr>rules = []\<rparr> NewRuleEngine tx = (Ok [], \<lparr>cache = [(''active'', [])]\<rparr>)"
  by (simp add: EvaluateRules_def getActiveRules_def NewRuleEngine_def
      RuleRepository_GetActiveRules_def)

lemma new_processor_fields:
  "validator (NewTransactionProcessor txr accr ruler n) = NewTransactionValidator"
  "fraudDetector (NewTransactionProcessor txr accr ruler n) = NewFraudDetector"
  "ruleEngine (NewTransactionProcessor txr accr ruler n) = NewRuleEngine"
  "ruleRepo (NewTransactionProcessor txr accr ruler n) = ruler"
  "accountRepo (NewTransactionProcessor txr accr ruler n) = accr"
  "txRepo (NewTransactionProcessor txr accr ruler n) = txr"
  "eventCh (NewTransactionProcessor txr accr ruler n) = []"
  "logger (NewTransactionProcessor txr accr ruler n) = None"
  by (simp_all add: NewTransactionProcessor_def)

lemma with_logger_fields:
  "validator (with_logger p) = validator p"
  "fraudDetector (with_logger p) = fraudDetector p"
  "ruleEngine (with_logger p) = ruleEngine p"
  "ruleRepo (with_logger p) = ruleRepo p"
  "accountRepo (with_logger p) = accountRepo p"
  "txRepo (with_logger p) = txRepo p"
  "eventCh (with_logger p) = eventCh p"
  "logger (with_logger p) = Some DefaultLogger"
  by (simp_all add: with_logger_def)

lemma clock_utc_world:
  "clock_now (utc_world t) = t" "clock_detect (utc_world t) = t" "clock_modifiers (utc_world t) = t"
  by (simp_all add: utc_world_def)

lemma transfer_test_validates:
  "ValidateTransaction noon transfer_test_tx NewTransactionValidator = (None, \<lparr>seen = {''tx1''}\<rparr>)"
  by (simp add: ValidateTransaction_def validation_errs_def Let_def transfer_test_tx_def
      zero_Transaction_def currencyRegex_MatchString_def domain_consts zero_Time_def noon_def
      Day_def Hour_def Minute_def NewTransactionValidator_def)

lemma transfer_test_score:
  "AnalyzeTransaction NewFraudDetector 12 12 transfer_test_tx = (0, [])"
  unfolding AnalyzeTransaction_def analyze_loop_registry
  by (simp add: transfer_test_tx_def zero_Transaction_def metadata_get_def)

lemma deposit_test_validates:
  "ValidateTransaction noon deposit_test_tx NewTransactionValidator = (None, \<lparr>seen = {''tx1''}\<rparr>)"
  by (simp add: ValidateTransaction_def validation_errs_def Let_def deposit_test_tx_def
      zero_Transaction_def currencyRegex_MatchString_def domain_consts zero_Time_def noon_def
      Day_def Hour_def Minute_def NewTransactionValidator_def)

lemma deposit_test_score:
  "AnalyzeTransaction NewFraudDetector 12 12 deposit_test_tx = (0, [])"
  unfolding AnalyzeTransaction_def analyze_loop_registry
  by (simp add: deposit_test_tx_def zero_Transaction_def metadata_get_def)

lemma withdrawal_test_validates:
  "ValidateTransaction noon withdrawal_test_tx NewTransactionValidator = (None, \<lparr>seen = {''tx1''}\<rparr>)"
  by (simp add: ValidateTransaction_def validation_errs_def Let_def withdrawal_test_tx_def
      zero_Transaction_def currencyRegex_MatchString_def domain_consts zero_Time_def noon_def
      Day_def Hour_def Minute_def NewTransactionValidator_def)

lemma withdrawal_test_score:
  "AnalyzeTransaction NewFraudDetector 12 12 withdrawal_test_tx = (0, [])"
  unfolding AnalyzeTransaction_def analyze_loop_registry
  by (simp add: withdrawal_test_tx_def zero_Transaction_def metadata_get_def)

text \<open>
  Claim C1 at the input of \<^verbatim>\<open>TestTransactionProcessor_ProcessTransaction_TransferSuccess\<close>:
  a processor from \<open>NewTransactionProcessor\<close>, accounts \<^verbatim>\<open>a1\<close> (1000) and \<^verbatim>\<open>a2\<close> (500), a
  transfer of 200 with risk score 0. The call panics; the balances are still 1000 and 500
  and the status is not completed, where the claim has 800, 700 and completed.
\<close>

theorem C1_transfer_test_panics:
  "fst (ProcessTransaction (utc_world noon) transfer_test_processor transfer_test_tx) = Panicked \<and>
   tx_RiskScore (snd (snd (ProcessTransaction (utc_world noon) transfer_test_processor
      transfer_test_tx))) = 0 \<and>
   map_option acc_Balance (accounts (accountRepo (fst (snd (ProcessTransaction (utc_world noon)
      transfer_test_processor transfer_test_tx)))) ''a1'') = Some 1000 \<and>
   map_option acc_Balance (accounts (accountRepo (fst (snd (ProcessTransaction (utc_world noon)
      transfer_test_processor transfer_test_tx)))) ''a2'') = Some 500 \<and>
   tx_Status (snd (snd (ProcessTransaction (utc_world noon) transfer_test_processor
      transfer_test_tx))) \<noteq> StatusCompleted"
proof -
  have run: "ProcessTransaction (utc_world noon) transfer_test_processor transfer_test_tx =
      (Panicked,
       transfer_test_processor\<lparr>validator := \<lparr>seen = {''tx1''}\<rparr>,
                                ruleEngine := \<lparr>cache = [(''active'', [])]\<rparr>\<rparr>,
       transfer_test_tx\<lparr>tx_RiskScore := 0, tx_FraudFlags := []\<rparr>)"
    by (rule ProcessTransaction_panics_without_logger [where results = "[]"])
       (simp_all add: transfer_test_processor_def new_processor_fields clock_utc_world hour_noon
          transfer_test_validates transfer_test_score no_rules_evaluate,
        simp add: transfer_test_tx_def)
  show ?thesis
    unfolding run
    by (simp add: transfer_test_processor_def new_processor_fields transfer_test_accounts_def
        saved_account_def transfer_test_tx_def zero_Transaction_def domain_consts)
qed

text \<open>The same test on the same processor with a logger attached does what C1 says.\<close>

lemma transfer_test_with_logger:
  "\<exists>p' tx' ax' ay'.
     ProcessTransaction (utc_world noon) (with_logger transfer_test_processor) transfer_test_tx
       = (Success, p', tx') \<and>
     accounts (accountRepo p') ''a1'' = Some ax' \<and> acc_Balance ax' = 800 \<and>
     accounts (accountRepo p') ''a2'' = Some ay' \<and> acc_Balance ay' = 700 \<and>
     tx_Status tx' = StatusCompleted"
proof -
  let ?p = "with_logger transfer_test_processor"
  let ?w = "utc_world noon"
  have ids: "tx_FromAccountID transfer_test_tx = ''a1''" "tx_ToAccountID transfer_test_tx = ''a2''"
    "tx_Amount transfer_test_tx = 200" "tx_Type transfer_test_tx = TypeTransfer"
    "tx_ID transfer_test_tx = ''tx1''"
    by (simp_all add: transfer_test_tx_def zero_Transaction_def)
  have repo: "accountRepo ?p = transfer_test_accounts" "txRepo ?p = \<lparr>transactions = []\<rparr>"
    by (simp_all add: with_logger_fields transfer_test_processor_def new_processor_fields)
  have lim: "checkAccountLimits ?w ?p (saved_account noon ''a1'' ''u1'' 1000) transfer_test_tx = None"
    by (simp add: checkAccountLimits_def repo TransactionRepository_GetDailyVolume_def
        TransactionRepository_GetMonthlyVolume_def Let_def saved_account_def zero_Account_def)
  have pf: "validator ?p = NewTransactionValidator" "fraudDetector ?p = NewFraudDetector"
    "ruleEngine ?p = NewRuleEngine" "ruleRepo ?p = \<lparr>rules = []\<rparr>"
    "logger ?p = Some DefaultLogger"
    by (simp_all add: with_logger_fields transfer_test_processor_def new_processor_fields)
  have acc: "accounts transfer_test_accounts ''a1'' = Some (saved_account noon ''a1'' ''u1'' 1000)"
    "accounts transfer_test_accounts ''a2'' = Some (saved_account noon ''a2'' ''u2'' 500)"
    by (simp_all add: transfer_test_accounts_def)
  have fields: "acc_ID (saved_account noon ''a1'' ''u1'' 1000) = ''a1''"
    "acc_ID (saved_account noon ''a2'' ''u2'' 500) = ''a2''"
    "acc_Currency (saved_account noon ''a1'' ''u1'' 1000) = acc_Currency (saved_account noon ''a2'' ''u2'' 500)"
    "acc_Status (saved_account noon ''a1'' ''u1'' 1000) = AccountActive"
    "acc_Status (saved_account noon ''a2'' ''u2'' 500) = AccountActive"
    "acc_Balance (saved_account noon ''a1'' ''u1'' 1000) = 1000"
    "acc_Balance (saved_account noon ''a2'' ''u2'' 500) = 500"
    by (simp_all add: saved_account_def zero_Account_def)
  have "\<exists>out p' tx' ax' ay'.
           ProcessTransaction ?w ?p transfer_test_tx = (out, p', tx') \<and>
           accounts (accountRepo p') (tx_FromAccountID transfer_test_tx) = Some ax' \<and>
           accounts (accountRepo p') (tx_ToAccountID transfer_test_tx) = Some ay' \<and>
           acc_Balance ax' = acc_Balance (saved_account noon ''a1'' ''u1'' 1000) - tx_Amount transfer_test_tx \<and>
           acc_Balance ay' = acc_Balance (saved_account noon ''a2'' ''u2'' 500) + tx_Amount transfer_test_tx \<and>
           acc_Balance ax' + acc_Balance ay' =
             acc_Balance (saved_account noon ''a1'' ''u1'' 1000) + acc_Balance (saved_account noon ''a2'' ''u2'' 500) \<and>
           tx_Status tx' = StatusCompleted \<and>
           (tx_ID transfer_test_tx \<notin> set (map tx_ID (transactions (txRepo ?p))) \<longrightarrow> out = Success)"
    by (rule transfer_with_logger [where lg = DefaultLogger and v = "\<lparr>seen = {''tx1''}\<rparr>"
          and score = 0 and flags = "[]" and results = "[]"
          and e = "\<lparr>cache = [(''active'', [])]\<rparr>"])
       (simp_all add: pf repo clock_utc_world hour_noon transfer_test_validates
          transfer_test_score no_rules_evaluate ids acc fields lim)
  then show ?thesis
    by (simp add: ids fields repo) blast
qed

section \<open>Rule evaluation\<close>

lemma evaluate_loop_append_acc:
  "evaluate_loop w rs tx acc =
     (case evaluate_loop w rs tx [] of Ok res \<Rightarrow> Ok (acc @ res) | Err err \<Rightarrow> Err err | Panic \<Rightarrow> Panic)"
proof (induction rs arbitrary: acc)
  case Nil
  then show ?case by simp
next
  case (Cons r rs)
  show ?case
  proof (cases "evaluateRule w r tx")
    case (Ok result)
    then show ?thesis
      using Cons.IH [of "acc @ [result]"] Cons.IH [of "[result]"] Cons.IH [of acc]
      by (simp split: res.splits)
  next
    case (Err err)
    then show ?thesis using Cons.IH [of acc] by simp
  next
    case Panic
    then show ?thesis by simp
  qed
qed

text \<open>A rule whose evaluation returns an error has no influence on the outcome of the loop.\<close>

lemma evaluate_loop_skips_error:
  "evaluateRule w r tx = Err err \<Longrightarrow>
   evaluate_loop w (rs1 @ r # rs2) tx acc = evaluate_loop w (rs1 @ rs2) tx acc"
proof (induction rs1 arbitrary: acc)
  case Nil
  then show ?case by simp
next
  case (Cons a rs1)
  then show ?case by (simp split: res.splits)
qed

text \<open>The rules that return an error: undecodable text, unknown field, unknown operator.\<close>

lemma evaluateRule_condition_not_decoded:
  "json_Condition w (rule_Condition r) = Inl err \<Longrightarrow>
   evaluateRule w r tx = Err (Wrapf ''failed to parse condition'' (Wrapf ''invalid condition JSON'' err))"
  by (simp add: evaluateRule_def parseCondition_def)

lemma evaluateRule_action_not_decoded:
  "json_Condition w (rule_Condition r) = Inr c \<Longrightarrow> checkCondition w c tx = Ok True \<Longrightarrow>
   json_Action w (rule_Action r) = Inl err \<Longrightarrow>
   evaluateRule w r tx = Err (Wrapf ''failed to parse action'' (Wrapf ''invalid action JSON'' err))"
  by (simp add: evaluateRule_def parseCondition_def parseAction_def)

lemma evaluateRule_unknown_field:
  "json_Condition w (rule_Condition r) = Inr c \<Longrightarrow>
   Field c \<notin> {''amount'', ''currency'', ''type'', ''risk_score'', ''metadata''} \<Longrightarrow>
   evaluateRule w r tx = Err (Wrapf ''failed to check condition'' (New ''unknown field''))"
  by (simp add: evaluateRule_def parseCondition_def checkCondition_def)

lemma checkAmountCondition_unknown_operator:
  "Operator c \<notin> {''>'', ''>='', ''<'', ''<='', ''=='', ''!=''} \<Longrightarrow>
   \<exists>err. checkAmountCondition c x = Err err"
  by (simp add: checkAmountCondition_def split: gvalue.splits)

lemma checkStringCondition_unknown_operator:
  "Operator c \<notin> {''=='', ''!='', ''contains'', ''in''} \<Longrightarrow>
   \<exists>err. checkStringCondition w c x = Err err"
  by (simp add: checkStringCondition_def split: gvalue.splits)

text \<open>Where no rule panics, the loop returns the triggered results in rule order.\<close>

lemma evaluate_loop_without_panic:
  "\<forall>r \<in> set rs. evaluateRule w r tx \<noteq> Panic \<Longrightarrow>
   evaluate_loop w rs tx acc =
     Ok (acc @ concat (map (\<lambda>r. case evaluateRule w r tx of
                                    Ok res \<Rightarrow> (if Triggered res then [res] else [])
                                  | _ \<Rightarrow> []) rs))"
proof (induction rs arbitrary: acc)
  case Nil
  then show ?case by simp
next
  case (Cons r rs)
  then show ?case by (cases "evaluateRule w r tx") simp_all
qed

text \<open>
  \<open>EvaluateRules\<close> never hands a rule's error to its caller, and where no active rule
  panics it returns, up to order, the results of the rules that evaluate and trigger.
\<close>

lemma EvaluateRules_returns_triggered:
  assumes "getActiveRules repo e = (Inr rs, e')"
    and "\<forall>r \<in> set rs. evaluateRule w r tx \<noteq> Panic"
  shows "\<exists>results. EvaluateRules w repo e tx = (Ok results, e') \<and>
           mset results =
             mset (concat (map (\<lambda>r. case evaluateRule w r tx of
                                      Ok res \<Rightarrow> (if Triggered res then [res] else [])
                                    | _ \<Rightarrow> []) rs))"
  using assms evaluate_loop_without_panic [of rs w tx "[]"]
  by (simp add: EvaluateRules_def)



subsection \<open>Concrete rules\<close>

lemma cond_texts_distinct:
  "cond_not_json \<noteq> cond_amount_gt_1000" "cond_not_json \<noteq> cond_currency_in"
  "cond_not_json \<noteq> cond_bad_regex" "cond_not_json \<noteq> cond_unknown_field"
  "cond_currency_in \<noteq> cond_amount_gt_1000" "cond_bad_regex \<noteq> cond_amount_gt_1000"
  "cond_bad_regex \<noteq> cond_currency_in" "cond_unknown_field \<noteq> cond_amount_gt_1000"
  "cond_unknown_field \<noteq> cond_currency_in" "cond_unknown_field \<noteq> cond_bad_regex"
  by (simp_all add: cond_not_json_def cond_amount_gt_1000_def cond_currency_in_def
      cond_bad_regex_def cond_unknown_field_def)

lemma rule_high_amount_triggers:
  "evaluateRule (utc_world t) rule_high_amount tx_1500 =
     Ok \<lparr>RuleID = ''r1'', RuleName = ''high_amount'', Triggered = True,
         Action = \<lparr>action_Type = ''flag_transaction'',
                   Params = [''reason'' \<mapsto> GString ''high_amount''],
                   Message = ''High transaction amount''\<rparr>,
         result_Description = []\<rparr>"
  by (simp add: evaluateRule_def parseCondition_def parseAction_def utc_world_def
      example_json_Condition_def example_json_Action_def rule_high_amount_def zero_Rule_def
      checkCondition_def checkAmountCondition_def tx_1500_def zero_Transaction_def)

lemma rule_not_json_errs:
  "evaluateRule (utc_world t) rule_not_json tx =
     Err (Wrapf ''failed to parse condition''
            (Wrapf ''invalid condition JSON'' (New ''invalid character'')))"
  by (rule evaluateRule_condition_not_decoded)
     (simp add: utc_world_def example_json_Condition_def rule_not_json_def zero_Rule_def
        cond_texts_distinct)

lemma rule_unknown_field_errs:
  "evaluateRule (utc_world t) rule_unknown_field tx =
     Err (Wrapf ''failed to check condition'' (New ''unknown field''))"
  by (rule evaluateRule_unknown_field
        [where c = "\<lparr>Field = ''country'', Operator = ''=='', Value = GString ''US''\<rparr>"])
     (simp_all add: utc_world_def example_json_Condition_def rule_unknown_field_def zero_Rule_def
        cond_texts_distinct)

lemma rule_bad_regex_panics:
  "tx_Currency tx = cur \<Longrightarrow> evaluateRule (utc_world t) rule_bad_regex tx = Panic"
  by (simp add: evaluateRule_def parseCondition_def utc_world_def
      example_json_Condition_def rule_bad_regex_def zero_Rule_def cond_texts_distinct
      checkCondition_def checkStringCondition_def example_regexp_Compile_def)

lemma rule_currency_in_errs:
  "evaluateRule (utc_world t) rule_currency_in tx =
     Err (Wrapf ''failed to check condition'' (New ''invalid value type for string field''))"
  by (simp add: evaluateRule_def parseCondition_def utc_world_def
      example_json_Condition_def rule_currency_in_def zero_Rule_def cond_texts_distinct
      checkCondition_def checkStringCondition_def)

lemma active_rules_of_new_engine:
  "getActiveRules \<lparr>rules = rs\<rparr> NewRuleEngine =
     (Inr (sort_key (\<lambda>rule. - rule_Priority rule) (filter rule_IsActive rs)),
      \<lparr>cache = [(''active'', sort_key (\<lambda>rule. - rule_Priority rule) (filter rule_IsActive rs))]\<rparr>)"
  by (simp add: getActiveRules_def NewRuleEngine_def RuleRepository_GetActiveRules_def)

lemma rule_fields:
  "rule_IsActive rule_high_amount" "rule_IsActive rule_not_json" "rule_IsActive rule_unknown_field"
  "rule_IsActive rule_bad_regex" "rule_IsActive rule_currency_in"
  "rule_Priority rule_high_amount = 10" "rule_Priority rule_not_json = 20"
  "rule_Priority rule_unknown_field = 5" "rule_Priority rule_bad_regex = 1"
  "rule_Priority rule_currency_in = 1"
  "rule_ID rule_high_amount = ''r1''"
  by (simp_all add: rule_high_amount_def rule_not_json_def rule_unknown_field_def
      rule_bad_regex_def rule_currency_in_def zero_Rule_def)

text \<open>
  Rules that fail to decode or name an unknown field are passed over: the result of the
  rule of \<^verbatim>\<open>TestRuleEngine_EvaluateRules_AmountCondition\<close> is returned from among them.
\<close>

lemma malformed_rules_are_skipped:
  "fst (EvaluateRules (utc_world noon)
          \<lparr>rules = [rule_high_amount, rule_not_json, rule_unknown_field]\<rparr> NewRuleEngine tx_1500)
     = Ok [\<lparr>RuleID = ''r1'', RuleName = ''high_amount'', Triggered = True,
            Action = \<lparr>action_Type = ''flag_transaction'',
                      Params = [''reason'' \<mapsto> GString ''high_amount''],
                      Message = ''High transaction amount''\<rparr>,
            result_Description = []\<rparr>]"
  by (simp add: EvaluateRules_def active_rules_of_new_engine rule_fields
      rule_high_amount_triggers rule_not_json_errs rule_unknown_field_errs)

text \<open>
  Claim C7 at a failing input: the active rules are the rule of
  \<^verbatim>\<open>TestRuleEngine_EvaluateRules_AmountCondition\<close> and a rule whose condition is
  \<^verbatim>\<open>{"field":"currency","operator":"contains","value":"("}\<close>, the transaction that of the same
  test with currency USD. The pattern does not parse, \<^verbatim>\<open>regexp.MustCompile\<close> panics, and
  \<open>EvaluateRules\<close> does not return: the result of the first rule, which had triggered, is
  lost, where the claim has the faulty rule passed over and that result returned.
\<close>

theorem C7_unparsable_pattern_aborts_evaluation:
  "evaluateRule (utc_world noon) rule_high_amount tx_1500 \<noteq> Panic \<and>
   (\<exists>res. evaluateRule (utc_world noon) rule_high_amount tx_1500 = Ok res \<and> Triggered res) \<and>
   regexp_Compile (utc_world noon) ''('' = None \<and>
   evaluateRule (utc_world noon) rule_bad_regex tx_1500 = Panic \<and>
   fst (EvaluateRules (utc_world noon) \<lparr>rules = [rule_high_amount, rule_bad_regex]\<rparr>
          NewRuleEngine tx_1500) = Panic \<and>
   fst (ProcessTransaction (utc_world noon)
          (NewTransactionProcessor \<lparr>transactions = []\<rparr> deposit_test_accounts
             \<lparr>rules = [rule_high_amount, rule_bad_regex]\<rparr> 1)
          deposit_test_tx) = Panicked"
proof -
  have bad: "evaluateRule (utc_world noon) rule_bad_regex tx = Panic" for tx
    by (rule rule_bad_regex_panics [OF refl])
  have loop: "fst (EvaluateRules (utc_world noon) \<lparr>rules = [rule_high_amount, rule_bad_regex]\<rparr>
          NewRuleEngine tx) = Panic" if "evaluateRule (utc_world noon) rule_high_amount tx \<noteq> Panic" for tx
    using that
    by (cases "evaluateRule (utc_world noon) rule_high_amount tx")
       (simp_all add: EvaluateRules_def active_rules_of_new_engine rule_fields bad)
  have high: "evaluateRule (utc_world noon) rule_high_amount tx \<noteq> Panic" for tx
    by (simp add: evaluateRule_def parseCondition_def parseAction_def utc_world_def
      example_json_Condition_def example_json_Action_def rule_high_amount_def zero_Rule_def
      checkCondition_def checkAmountCondition_def Let_def)
  let ?tx1 = "deposit_test_tx\<lparr>tx_RiskScore := 0, tx_FraudFlags := []\<rparr>"
  let ?repo = "\<lparr>rules = [rule_high_amount, rule_bad_regex]\<rparr>"
  obtain e where E: "EvaluateRules (utc_world noon) ?repo NewRuleEngine ?tx1 = (Panic, e)"
    using loop [OF high, of ?tx1]
    by (cases "EvaluateRules (utc_world noon) ?repo NewRuleEngine ?tx1") simp
  have pt: "fst (ProcessTransaction (utc_world noon)
          (NewTransactionProcessor \<lparr>transactions = []\<rparr> deposit_test_accounts ?repo 1)
          deposit_test_tx) = Panicked"
    by (simp add: ProcessTransaction_def new_processor_fields clock_utc_world hour_noon
        deposit_test_validates deposit_test_score E)
  show ?thesis
    using loop [OF high, of tx_1500] bad [of tx_1500] pt
    by (simp add: rule_high_amount_triggers)
       (simp add: utc_world_def example_regexp_Compile_def)
qed

text \<open>
  Claim C8 at a failing input: the condition
  \<^verbatim>\<open>{"field":"currency","operator":"in","value":["USD","EUR"]}\<close> on a transaction in USD.
  The claim has the rule trigger. \<open>checkStringCondition\<close> first requires the value to be
  a string and reports the list as an evaluation error; given a string it reaches case
  \<^verbatim>\<open>"in"\<close> and reports that the value is no list. So the operator returns an error for
  every value, whether decoded from JSON or built in Go as a \<^verbatim>\<open>[]string\<close>, and the rule
  is passed over as failed.
\<close>

theorem C8_in_operator_always_errs:
  "tx_Currency tx_1500 = ''USD'' \<and>
   json_Condition (utc_world noon) (rule_Condition rule_currency_in)
     = Inr \<lparr>Field = ''currency'', Operator = ''in'',
            Value = GSlice [GString ''USD'', GString ''EUR'']\<rparr> \<and>
   evaluateRule (utc_world noon) rule_currency_in tx_1500
     = Err (Wrapf ''failed to check condition'' (New ''invalid value type for string field'')) \<and>
   fst (EvaluateRules (utc_world noon) \<lparr>rules = [rule_currency_in]\<rparr> NewRuleEngine tx_1500) = Ok [] \<and>
   checkStringCondition (utc_world noon)
     \<lparr>Field = ''currency'', Operator = ''in'', Value = GStrings [''USD'', ''EUR'']\<rparr> ''USD''
     = Err (New ''invalid value type for string field'') \<and>
   checkStringCondition (utc_world noon)
     \<lparr>Field = ''currency'', Operator = ''in'', Value = GString ''USD''\<rparr> ''USD''
     = Err (New ''invalid value for in operator'')"
proof -
  have "fst (EvaluateRules (utc_world noon) \<lparr>rules = [rule_currency_in]\<rparr> NewRuleEngine tx_1500) = Ok []"
    by (simp add: EvaluateRules_def active_rules_of_new_engine rule_fields rule_currency_in_errs)
  moreover have "json_Condition (utc_world noon) (rule_Condition rule_currency_in)
     = Inr \<lparr>Field = ''currency'', Operator = ''in'',
            Value = GSlice [GString ''USD'', GString ''EUR'']\<rparr>"
    by (simp add: utc_world_def example_json_Condition_def rule_currency_in_def zero_Rule_def
        cond_texts_distinct)
  ultimately show ?thesis
    by (simp add: rule_currency_in_errs checkStringCondition_def tx_1500_def zero_Transaction_def)
qed

text \<open>For every condition with operator \<^verbatim>\<open>"in"\<close>, whatever its value, the check is an error.\<close>

lemma in_operator_never_succeeds:
  "Operator c = ''in'' \<Longrightarrow> \<exists>err. checkStringCondition w c x = Err err"
  by (simp add: checkStringCondition_def split: gvalue.splits)

text \<open>
  Claim C3 at the input of
  \<^verbatim>\<open>TestTransactionProcessor_ProcessTransaction_WithdrawalInsufficientFunds\<close>: a processor
  from \<open>NewTransactionProcessor\<close>, account \<^verbatim>\<open>a1\<close> with balance 100, a withdrawal of 200. The
  ledger operation panics before it reads the account; the balance is still 100, but no
  insufficient-funds error is returned.
\<close>

theorem C3_withdrawal_test_panics:
  "acc_Balance (saved_account noon ''a1'' ''u1'' 100) < tx_Amount withdrawal_test_tx \<and>
   executeTransaction (utc_world noon) deposit_test_processor withdrawal_test_tx
     = (Panicked, deposit_test_processor) \<and>
   fst (ProcessTransaction (utc_world noon) deposit_test_processor withdrawal_test_tx) = Panicked \<and>
   fst (ProcessTransaction (utc_world noon) deposit_test_processor withdrawal_test_tx)
     \<noteq> Failure ErrInsufficientFunds \<and>
   map_option acc_Balance (accounts (accountRepo (fst (snd (ProcessTransaction (utc_world noon)
      deposit_test_processor withdrawal_test_tx)))) ''a1'') = Some 100"
proof -
  have ty: "tx_Type withdrawal_test_tx = TypeWithdrawal"
    by (simp add: withdrawal_test_tx_def zero_Transaction_def)
  have ex: "executeTransaction (utc_world noon) deposit_test_processor withdrawal_test_tx
              = (Panicked, deposit_test_processor)"
    by (rule executeTransaction_panics_without_logger)
       (simp_all add: deposit_test_processor_def new_processor_fields ty)
  have run: "ProcessTransaction (utc_world noon) deposit_test_processor withdrawal_test_tx =
      (Panicked,
       deposit_test_processor\<lparr>validator := \<lparr>seen = {''tx1''}\<rparr>,
                               ruleEngine := \<lparr>cache = [(''active'', [])]\<rparr>\<rparr>,
       withdrawal_test_tx\<lparr>tx_RiskScore := 0, tx_FraudFlags := []\<rparr>)"
    by (rule ProcessTransaction_panics_without_logger [where results = "[]"])
       (simp_all add: deposit_test_processor_def new_processor_fields clock_utc_world hour_noon
          withdrawal_test_validates withdrawal_test_score no_rules_evaluate ty)
  have less: "acc_Balance (saved_account noon ''a1'' ''u1'' 100) < tx_Amount withdrawal_test_tx"
    by (simp add: saved_account_def zero_Account_def withdrawal_test_tx_def zero_Transaction_def)
  show ?thesis
    unfolding run
    by (simp add: ex less)
       (simp add: deposit_test_processor_def new_processor_fields deposit_test_accounts_def
          saved_account_def zero_Account_def)
qed








section \<open>Routing by risk score\<close>












end
